theory Spec2Isabelle
  imports Main "HOL-Library.AList"
begin

section \<open>Python values and the built-ins the engine relies on\<close>

text \<open>
  The workflow engine (\<^verbatim>\<open>journey/orchestrator.py\<close>, \<^verbatim>\<open>journey/utils.py\<close>,
  \<^verbatim>\<open>journey/tool_registry.py\<close>) works on YAML/JSON data: \<^verbatim>\<open>None\<close>, booleans,
  unbounded integers, floats, strings, lists and dictionaries with string keys.
  Floats are kept abstract (type parameter \<open>'f\<close>): their textual form, the coercion
  \<^verbatim>\<open>float(x)\<close> and the comparisons are fields of the record \<open>builtins\<close>, so every
  theorem holds for whatever the floating-point unit does.  Dictionaries are association
  lists in insertion order with distinct keys, updated by \<open>AList.update\<close> (an existing key
  keeps its place, a new one goes to the end), as Python dictionaries are.
  Values are compared by content: the model has no object identity.
\<close>

datatype 'f pyval =
    VNone
  | VBool bool
  | VInt int
  | VFloat 'f
  | VStr string
  | VList "'f pyval list"
  | VDict "(string \<times> 'f pyval) list"

type_synonym 'f pydict = "(string \<times> 'f pyval) list"

text \<open>The exceptions that the modelled code can raise; \<open>ToolError\<close> is whatever a
  registered tool raises.  \<open>NonStrKey\<close> is not a Python exception: it marks a store
  into \<^verbatim>\<open>variables: Dict[str, Any]\<close> under a hashable key that is not a string, which
  Python accepts but which leaves the declared type of the session state; the model
  stops there.\<close>

datatype py_error =
    KeyError
  | IndexError
  | TypeError
  | AttributeError
  | ValueError
  | OverflowError
  | RecursionError
  | ToolError string
  | NonStrKey

record 'f builtins =
  float_str :: "'f \<Rightarrow> string"
  float_is_zero :: "'f \<Rightarrow> bool"
  float_of_int :: "int \<Rightarrow> 'f option"
  float_of_str :: "string \<Rightarrow> 'f option"
  float_lt :: "'f \<Rightarrow> 'f \<Rightarrow> bool"
  float_le :: "'f \<Rightarrow> 'f \<Rightarrow> bool"
  literal_eval :: "string \<Rightarrow> 'f pyval list option"
  uuid4 :: "nat \<Rightarrow> string"

subsection \<open>Characters\<close>

text \<open>A \<open>char\<close> stands for the code point of the same number (0 to 255).  The classes
  are those of Python's \<^verbatim>\<open>str.isspace\<close> (used by \<^verbatim>\<open>strip\<close> and by \<^verbatim>\<open>\s\<close>) and of
  \<^verbatim>\<open>\w\<close> in a \<^verbatim>\<open>str\<close> pattern (alphanumeric or underscore) on that range.\<close>

definition code :: "char \<Rightarrow> nat" where
  "code c = of_char c"

definition is_space :: "char \<Rightarrow> bool" where
  "is_space c = (let n = code c in
     (9 \<le> n \<and> n \<le> 13) \<or> (28 \<le> n \<and> n \<le> 32) \<or> n = 133 \<or> n = 160)"

definition is_word :: "char \<Rightarrow> bool" where
  "is_word c = (let n = code c in
     (48 \<le> n \<and> n \<le> 57) \<or> (65 \<le> n \<and> n \<le> 90) \<or> n = 95 \<or> (97 \<le> n \<and> n \<le> 122)
     \<or> n = 170 \<or> n = 178 \<or> n = 179 \<or> n = 181 \<or> n = 185 \<or> n = 186
     \<or> (188 \<le> n \<and> n \<le> 190) \<or> (192 \<le> n \<and> n \<le> 214) \<or> (216 \<le> n \<and> n \<le> 246)
     \<or> 248 \<le> n)"

text \<open>The character class \<^verbatim>\<open>[\w\s]\<close> of the placeholder patterns.\<close>

definition is_name_char :: "char \<Rightarrow> bool" where
  "is_name_char c = (is_word c \<or> is_space c)"

definition lower_char :: "char \<Rightarrow> char" where
  "lower_char c = (let n = code c in
     if (65 \<le> n \<and> n \<le> 90) \<or> (192 \<le> n \<and> n \<le> 214) \<or> (216 \<le> n \<and> n \<le> 222)
     then char_of (n + 32) else c)"

definition lower :: "string \<Rightarrow> string" where
  "lower s = map lower_char s"

definition strip :: "string \<Rightarrow> string" where
  "strip s = rev (dropWhile is_space (rev (dropWhile is_space s)))"

definition startswith :: "string \<Rightarrow> string \<Rightarrow> bool" where
  "startswith s p = (take (length p) s = p)"

definition endswith :: "string \<Rightarrow> string \<Rightarrow> bool" where
  "endswith s p = (length p \<le> length s \<and> drop (length s - length p) s = p)"

fun contains :: "string \<Rightarrow> string \<Rightarrow> bool" where
  "contains [] p = (p = [])"
| "contains (c # cs) p = (startswith (c # cs) p \<or> contains cs p)"

text \<open>\<^verbatim>\<open>s.replace(old, new)\<close>: every occurrence of \<open>old\<close>, left to right, without
  overlap.  With an empty \<open>old\<close> Python puts \<open>new\<close> around every character.\<close>

function replace_nonempty :: "string \<Rightarrow> string \<Rightarrow> string \<Rightarrow> string" where
  "replace_nonempty [] old new = []"
| "replace_nonempty (c # cs) old new =
     (if old \<noteq> [] \<and> startswith (c # cs) old
      then new @ replace_nonempty (drop (length old) (c # cs)) old new
      else c # replace_nonempty cs old new)"
  by pat_completeness auto
termination
  by (relation "measure (\<lambda>(s, old, new). length s)") auto

definition replace :: "string \<Rightarrow> string \<Rightarrow> string \<Rightarrow> string" where
  "replace s old new =
     (if old = [] then new @ concat (map (\<lambda>c. c # new) s) else replace_nonempty s old new)"

subsection \<open>Textual forms: \<^verbatim>\<open>str\<close> and \<^verbatim>\<open>repr\<close>\<close>

definition digit_char :: "nat \<Rightarrow> char" where
  "digit_char d = ''0123456789'' ! d"

fun str_nat :: "nat \<Rightarrow> string" where
  "str_nat n = (if n < 10 then [digit_char n] else str_nat (n div 10) @ [digit_char (n mod 10)])"

declare str_nat.simps [simp del]

definition str_int :: "int \<Rightarrow> string" where
  "str_int i = (if i < 0 then CHR ''-'' # str_nat (nat (- i)) else str_nat (nat i))"

definition hex_char :: "nat \<Rightarrow> char" where
  "hex_char d = ''0123456789abcdef'' ! d"

definition escape_char :: "char \<Rightarrow> char \<Rightarrow> string" where
  "escape_char q c = (let n = code c in
     if c = q \<or> n = 92 then [CHR 0x5C, c]
     else if n = 9 then [CHR 0x5C, CHR ''t'']
     else if n = 10 then [CHR 0x5C, CHR ''n'']
     else if n = 13 then [CHR 0x5C, CHR ''r'']
     else if n < 32 \<or> n = 127 \<or> (128 \<le> n \<and> n \<le> 160) \<or> n = 173
       then [CHR 0x5C, CHR ''x'', hex_char (n div 16), hex_char (n mod 16)]
     else [c])"

definition repr_str :: "string \<Rightarrow> string" where
  "repr_str s = (let q = (if CHR 0x27 \<in> set s \<and> CHR 0x22 \<notin> set s then CHR 0x22 else CHR 0x27)
     in q # concat (map (escape_char q) s) @ [q])"

fun join :: "string \<Rightarrow> string list \<Rightarrow> string" where
  "join sep [] = []"
| "join sep [x] = x"
| "join sep (x # y # ys) = x @ sep @ join sep (y # ys)"

fun py_repr :: "'f builtins \<Rightarrow> 'f pyval \<Rightarrow> string" where
  "py_repr B VNone = ''None''"
| "py_repr B (VBool b) = (if b then ''True'' else ''False'')"
| "py_repr B (VInt i) = str_int i"
| "py_repr B (VFloat x) = float_str B x"
| "py_repr B (VStr s) = repr_str s"
| "py_repr B (VList xs) = ''['' @ join '', '' (map (py_repr B) xs) @ '']''"
| "py_repr B (VDict kvs) =
     ''{'' @ join '', '' (map (\<lambda>kv. repr_str (fst kv) @ '': '' @ py_repr B (snd kv)) kvs) @ ''}''"

definition py_str :: "'f builtins \<Rightarrow> 'f pyval \<Rightarrow> string" where
  "py_str B v = (case v of VStr s \<Rightarrow> s | _ \<Rightarrow> py_repr B v)"

text \<open>Truth value of a Python object, as \<^verbatim>\<open>if x:\<close> takes it.\<close>

fun truthy :: "'f builtins \<Rightarrow> 'f pyval \<Rightarrow> bool" where
  "truthy B VNone = False"
| "truthy B (VBool b) = b"
| "truthy B (VInt i) = (i \<noteq> 0)"
| "truthy B (VFloat x) = (\<not> float_is_zero B x)"
| "truthy B (VStr s) = (s \<noteq> [])"
| "truthy B (VList xs) = (xs \<noteq> [])"
| "truthy B (VDict kvs) = (kvs \<noteq> [])"

section \<open>Interpolation (\<^verbatim>\<open>utils.interpolate_variables\<close>)\<close>

text \<open>\<^verbatim>\<open>re.findall(r'\{([\w\s]+)\}', text)\<close>: scanning from the left, a match is an
  opening brace, the longest non-empty run of word and space characters, and a closing
  brace right after it (no shorter run can be followed by a brace, so backtracking finds
  nothing more); the scan goes on after the match, or one character further when there
  is none.\<close>

function findall_placeholders :: "string \<Rightarrow> string list" where
  "findall_placeholders [] = []"
| "findall_placeholders (c # cs) =
     (if c = CHR 0x7B \<and> takeWhile is_name_char cs \<noteq> []
         \<and> startswith (dropWhile is_name_char cs) [CHR 0x7D]
      then takeWhile is_name_char cs # findall_placeholders (tl (dropWhile is_name_char cs))
      else findall_placeholders cs)"
  by pat_completeness auto
termination
  by (relation "measure length")
     (auto simp: less_Suc_eq_le intro: order_trans [OF diff_le_self length_dropWhile_le])

definition placeholder :: "string \<Rightarrow> string" where
  "placeholder var_name = CHR 0x7B # var_name @ [CHR 0x7D]"

text \<open>The loop over the matches: the text is rewritten once per match, in order.\<close>

fun interpolate_loop :: "'f builtins \<Rightarrow> 'f pydict \<Rightarrow> string list \<Rightarrow> string \<Rightarrow> string" where
  "interpolate_loop B vars [] text = text"
| "interpolate_loop B vars (var_name # matches) text =
     interpolate_loop B vars matches
       (case map_of vars var_name of
          None \<Rightarrow> text
        | Some v \<Rightarrow> if v \<noteq> VNone then replace text (placeholder var_name) (py_str B v) else text)"

definition interpolate_str :: "'f builtins \<Rightarrow> string \<Rightarrow> 'f pydict \<Rightarrow> string" where
  "interpolate_str B text vars = interpolate_loop B vars (findall_placeholders text) text"

definition interpolate_variables :: "'f builtins \<Rightarrow> 'f pyval \<Rightarrow> 'f pydict \<Rightarrow> 'f pyval" where
  "interpolate_variables B text vars =
     (case text of VStr s \<Rightarrow> VStr (interpolate_str B s vars) | _ \<Rightarrow> text)"

section \<open>Type-preserving interpolation (\<^verbatim>\<open>Orchestrator._interpolate_with_types\<close>)\<close>

text \<open>\<^verbatim>\<open>re.match(r'^\{([\w\s]+)\}$', s)\<close>: the whole of \<open>s\<close> is one placeholder;
  \<^verbatim>\<open>$\<close> also matches in front of a final newline.\<close>

definition match_single :: "string \<Rightarrow> string option" where
  "match_single s =
     (case s of
        [] \<Rightarrow> None
      | c # cs \<Rightarrow>
          if c = CHR 0x7B \<and> takeWhile is_name_char cs \<noteq> []
             \<and> (dropWhile is_name_char cs = [CHR 0x7D]
                  \<or> dropWhile is_name_char cs = [CHR 0x7D, CHR 0x0A])
          then Some (takeWhile is_name_char cs) else None)"

definition interpolate_with_types :: "'f builtins \<Rightarrow> 'f pyval \<Rightarrow> 'f pydict \<Rightarrow> 'f pyval" where
  "interpolate_with_types B v vars =
     (case v of
        VStr s \<Rightarrow>
          (case match_single (strip s) of
             Some var_name \<Rightarrow>
               (case map_of vars var_name of
                  Some x \<Rightarrow> x
                | None \<Rightarrow> interpolate_variables B v vars)
           | None \<Rightarrow> interpolate_variables B v vars)
      | _ \<Rightarrow> v)"

fun interpolate_args_deep :: "'f builtins \<Rightarrow> 'f pyval \<Rightarrow> 'f pydict \<Rightarrow> 'f pyval" where
  "interpolate_args_deep B (VDict kvs) vars =
     VDict (map (\<lambda>kv. (fst kv, interpolate_args_deep B (snd kv) vars)) kvs)"
| "interpolate_args_deep B (VList xs) vars = VList (map (\<lambda>x. interpolate_args_deep B x vars) xs)"
| "interpolate_args_deep B v vars = interpolate_with_types B v vars"

section \<open>The structured condition evaluator\<close>

text \<open>\<^verbatim>\<open>d.get(key, default)\<close> on a dictionary with string keys, for a key of any type:
  a list or a dictionary is unhashable (\<^verbatim>\<open>TypeError\<close>); any other key that is not a
  string is simply absent.\<close>

fun dict_get :: "'f pydict \<Rightarrow> 'f pyval \<Rightarrow> 'f pyval \<Rightarrow> py_error + 'f pyval" where
  "dict_get d (VStr k) dflt = Inr (case map_of d k of Some v \<Rightarrow> v | None \<Rightarrow> dflt)"
| "dict_get d (VList xs) dflt = Inl TypeError"
| "dict_get d (VDict kvs) dflt = Inl TypeError"
| "dict_get d k dflt = Inr dflt"

definition get_default :: "'f pydict \<Rightarrow> string \<Rightarrow> 'f pyval \<Rightarrow> 'f pyval" where
  "get_default d k dflt = (case map_of d k of Some v \<Rightarrow> v | None \<Rightarrow> dflt)"

text \<open>\<^verbatim>\<open>float(x)\<close>: \<^verbatim>\<open>TypeError\<close> for \<^verbatim>\<open>None\<close>, lists and dictionaries,
  \<^verbatim>\<open>ValueError\<close> for a string that is no number, \<^verbatim>\<open>OverflowError\<close> for an integer
  too large.\<close>

fun py_float :: "'f builtins \<Rightarrow> 'f pyval \<Rightarrow> py_error + 'f" where
  "py_float B VNone = Inl TypeError"
| "py_float B (VBool b) =
     (case float_of_int B (if b then 1 else 0) of None \<Rightarrow> Inl OverflowError | Some x \<Rightarrow> Inr x)"
| "py_float B (VInt i) =
     (case float_of_int B i of None \<Rightarrow> Inl OverflowError | Some x \<Rightarrow> Inr x)"
| "py_float B (VFloat x) = Inr x"
| "py_float B (VStr s) =
     (case float_of_str B s of None \<Rightarrow> Inl ValueError | Some x \<Rightarrow> Inr x)"
| "py_float B (VList xs) = Inl TypeError"
| "py_float B (VDict kvs) = Inl TypeError"

text \<open>One numeric branch: both coercions, left operand first, then the comparison;
  \<^verbatim>\<open>except (ValueError, TypeError)\<close> gives \<open>False\<close>, any other exception goes on to
  the outer handler.\<close>

definition float_compare ::
  "'f builtins \<Rightarrow> ('f \<Rightarrow> 'f \<Rightarrow> bool) \<Rightarrow> 'f pyval \<Rightarrow> 'f pyval \<Rightarrow> py_error + bool" where
  "float_compare B cmp variable_value v =
     (case py_float B variable_value of
        Inl e \<Rightarrow> if e = ValueError \<or> e = TypeError then Inr False else Inl e
      | Inr x \<Rightarrow>
          (case py_float B v of
             Inl e \<Rightarrow> if e = ValueError \<or> e = TypeError then Inr False else Inl e
           | Inr y \<Rightarrow> Inr (cmp x y)))"

text \<open>The body of the \<^verbatim>\<open>try\<close> block: the chain of operator tests, in the order of
  the source.\<close>

definition eval_operator ::
  "'f builtins \<Rightarrow> 'f pyval \<Rightarrow> 'f pyval \<Rightarrow> 'f pyval \<Rightarrow> py_error + bool" where
  "eval_operator B operator variable_value v =
     (if operator = VStr ''equals'' \<or> operator = VStr ''=='' then
        Inr (lower (py_str B variable_value) = lower (py_str B v))
      else if operator = VStr ''not_equals'' \<or> operator = VStr ''!='' then
        Inr (lower (py_str B variable_value) \<noteq> lower (py_str B v))
      else if operator = VStr ''is_true'' then
        Inr (variable_value = VBool True \<or> lower (py_str B variable_value) = ''true'')
      else if operator = VStr ''is_false'' then
        Inr (variable_value = VBool False \<or> lower (py_str B variable_value) = ''false'')
      else if operator = VStr ''contains'' then
        Inr (contains (lower (py_str B variable_value)) (lower (py_str B v)))
      else if operator = VStr ''starts_with'' then
        Inr (startswith (lower (py_str B variable_value)) (lower (py_str B v)))
      else if operator = VStr ''ends_with'' then
        Inr (endswith (lower (py_str B variable_value)) (lower (py_str B v)))
      else if operator = VStr ''greater_than'' then
        float_compare B (\<lambda>x y. float_lt B y x) variable_value v
      else if operator = VStr ''less_than'' then
        float_compare B (\<lambda>x y. float_lt B x y) variable_value v
      else if operator = VStr ''greater_than_or_equal'' then
        float_compare B (\<lambda>x y. float_le B y x) variable_value v
      else if operator = VStr ''less_than_or_equal'' then
        float_compare B (\<lambda>x y. float_le B x y) variable_value v
      else Inr False)"

text \<open>\<^verbatim>\<open>Orchestrator._evaluate_structured_condition\<close>.  The three \<^verbatim>\<open>rule.get\<close> and
  the lookup \<^verbatim>\<open>variables.get(variable, '')\<close> come before the \<^verbatim>\<open>try\<close>; the handler
  \<^verbatim>\<open>except Exception\<close> turns whatever the body raises into \<open>False\<close>.\<close>

definition evaluate_structured_condition ::
  "'f builtins \<Rightarrow> 'f pydict \<Rightarrow> 'f pydict \<Rightarrow> py_error + bool" where
  "evaluate_structured_condition B rule vars =
     (let variable = get_default rule ''variable'' (VStr []);
          operator = get_default rule ''operator'' (VStr ''equals'');
          v = get_default rule ''value'' (VStr [])
      in case dict_get vars variable (VStr []) of
           Inl e \<Rightarrow> Inl e
         | Inr variable_value \<Rightarrow>
             (case eval_operator B operator variable_value v of
                Inl e \<Rightarrow> Inr False
              | Inr result \<Rightarrow> Inr result))"

section \<open>Session state, workflow and tool registry\<close>

text \<open>The session state is the caller's dictionary; \<open>None\<close> is an absent key.  The
  current node identifier is whatever the caller or a \<^verbatim>\<open>GOTO_NODE\<close> target put there.
  A tool is a function of its positional and keyword arguments that returns a value or
  raises.  The orchestrator holds the nodes of the workflow in declaration order (the
  identifier and the blocks of each) and, optionally, a tool registry.\<close>

record 'f session =
  current_node_id :: "'f pyval option"
  current_block_index :: "int option"
  variables :: "'f pydict option"
  pending_action :: "'f pydict option"

type_synonym 'f tool = "'f pyval list \<Rightarrow> 'f pydict \<Rightarrow> py_error + 'f pyval"

type_synonym 'f registry = "string \<Rightarrow> 'f tool option"

record 'f orchestrator =
  workflow_nodes :: "(string \<times> 'f pydict list) list"
  tool_registry :: "'f registry option"

datatype 'f outcome =
    Raise (raised: py_error) (final_state: "'f session")
  | Return (returned: "'f pydict list") (final_state: "'f session")

text \<open>\<^verbatim>\<open>self.nodes\<close> is built by a dictionary comprehension, so the last node of an
  identifier wins; \<^verbatim>\<open>self.node_order\<close> lists the identifiers as declared.\<close>

definition node_order :: "'f orchestrator \<Rightarrow> string list" where
  "node_order W = map fst (workflow_nodes W)"

fun nodes_get :: "'f orchestrator \<Rightarrow> 'f pyval \<Rightarrow> py_error + 'f pydict list option" where
  "nodes_get W (VStr k) = Inr (map_of (rev (workflow_nodes W)) k)"
| "nodes_get W (VList xs) = Inl TypeError"
| "nodes_get W (VDict kvs) = Inl TypeError"
| "nodes_get W k = Inr None"

fun index_of :: "'a list \<Rightarrow> 'a \<Rightarrow> nat option" where
  "index_of [] x = None"
| "index_of (y # ys) x = (if y = x then Some 0 else map_option Suc (index_of ys x))"

text \<open>\<^verbatim>\<open>xs[i]\<close>: an index below zero is taken from the end of the list; \<open>None\<close>
  stands for \<^verbatim>\<open>IndexError\<close>.\<close>

definition py_index :: "'a list \<Rightarrow> int \<Rightarrow> 'a option" where
  "py_index xs i =
     (if 0 \<le> i \<and> i < int (length xs) then Some (xs ! nat i)
      else if i < 0 \<and> - int (length xs) \<le> i then Some (xs ! nat (int (length xs) + i))
      else None)"

definition the_variables :: "'f session \<Rightarrow> 'f pydict" where
  "the_variables s = (case variables s of None \<Rightarrow> [] | Some vars \<Rightarrow> vars)"

definition ensure_variables :: "'f session \<Rightarrow> 'f session" where
  "ensure_variables s = (case variables s of None \<Rightarrow> s\<lparr>variables := Some []\<rparr> | Some vars \<Rightarrow> s)"

text \<open>A value used as a key of \<^verbatim>\<open>variables\<close>.\<close>

fun as_key :: "'f pyval \<Rightarrow> py_error + string" where
  "as_key (VStr k) = Inr k"
| "as_key (VList xs) = Inl TypeError"
| "as_key (VDict kvs) = Inl TypeError"
| "as_key v = Inl NonStrKey"

definition set_variable ::
  "'f session \<Rightarrow> 'f pyval \<Rightarrow> 'f pyval \<Rightarrow> py_error \<times> 'f session + 'f session" where
  "set_variable s var_name v =
     (let s1 = ensure_variables s
      in case as_key var_name of
           Inl e \<Rightarrow> Inl (e, s1)
         | Inr k \<Rightarrow> Inr (s1\<lparr>variables := Some (AList.update k v (the_variables s1))\<rparr>))"

subsection \<open>The tool registry and the call-string path\<close>

fun has_tool :: "'f registry \<Rightarrow> 'f pyval \<Rightarrow> py_error + bool" where
  "has_tool reg (VStr k) = Inr (reg k \<noteq> None)"
| "has_tool reg (VList xs) = Inl TypeError"
| "has_tool reg (VDict kvs) = Inl TypeError"
| "has_tool reg v = Inr False"

fun registry_call ::
  "'f registry \<Rightarrow> 'f pyval \<Rightarrow> 'f pyval list \<Rightarrow> 'f pydict \<Rightarrow> py_error + 'f pyval" where
  "registry_call reg (VStr k) args kwargs =
     (case reg k of None \<Rightarrow> Inl ValueError | Some f \<Rightarrow> f args kwargs)"
| "registry_call reg (VList xs) args kwargs = Inl TypeError"
| "registry_call reg (VDict kvs) args kwargs = Inl TypeError"
| "registry_call reg v args kwargs = Inl ValueError"

text \<open>\<^verbatim>\<open>registry.call(name, **interpolated_args)\<close>: the arguments must be a mapping,
  and a keyword that is a parameter of \<^verbatim>\<open>call\<close> itself (\<^verbatim>\<open>self\<close>, \<^verbatim>\<open>tool_name\<close>) is
  given twice.\<close>

definition call_kwargs :: "'f registry \<Rightarrow> 'f pyval \<Rightarrow> 'f pyval \<Rightarrow> py_error + 'f pyval" where
  "call_kwargs reg name args =
     (case args of
        VDict kwargs \<Rightarrow>
          if map_of kwargs ''self'' \<noteq> None \<or> map_of kwargs ''tool_name'' \<noteq> None
          then Inl TypeError
          else registry_call reg name [] kwargs
      | _ \<Rightarrow> Inl TypeError)"

text \<open>\<^verbatim>\<open>utils.parse_function_call\<close>: \<^verbatim>\<open>re.match(r'(\w+)\((.*)\)$', s.strip())\<close> asks for
  the longest run of word characters, an opening parenthesis, and a closing parenthesis
  as the last character, with no newline in between (the dot does not match one).  The
  arguments are read by \<^verbatim>\<open>ast.literal_eval\<close>, a field of \<open>builtins\<close>; when it fails the
  argument text is the only argument.\<close>

definition parse_function_call ::
  "'f builtins \<Rightarrow> 'f pyval \<Rightarrow> py_error + (string option \<times> 'f pyval list)" where
  "parse_function_call B call_string =
     (case call_string of
        VStr s \<Rightarrow>
          (let t = strip s; func_name = takeWhile is_word t; rest = dropWhile is_word t
           in if func_name \<noteq> [] \<and> 2 \<le> length rest \<and> hd rest = CHR 0x28 \<and> last rest = CHR 0x29
                 \<and> CHR 0x0A \<notin> set (butlast (tl rest))
              then (let args_str = strip (butlast (tl rest))
                    in if args_str = [] then Inr (Some func_name, [])
                       else (case literal_eval B (CHR 0x5B # args_str @ [CHR 0x5D]) of
                               Some args \<Rightarrow> Inr (Some func_name, args)
                             | None \<Rightarrow> Inr (Some func_name, [VStr args_str])))
              else Inr (None, []))
      | _ \<Rightarrow> Inl AttributeError)"

definition execute_tool_call ::
  "'f builtins \<Rightarrow> 'f pyval \<Rightarrow> 'f pydict \<Rightarrow> 'f registry \<Rightarrow> py_error + 'f pyval" where
  "execute_tool_call B call_string vars reg =
     (case parse_function_call B (interpolate_variables B call_string vars) of
        Inl e \<Rightarrow> Inl e
      | Inr (tool_name, args) \<Rightarrow>
          (case tool_name of
             None \<Rightarrow> Inr VNone
           | Some name \<Rightarrow>
               if name = [] then Inr VNone
               else if reg name \<noteq> None then registry_call reg (VStr name) args []
               else Inr VNone))"

subsection \<open>The variable operations of the orchestrator\<close>

definition set_variable_from_source ::
  "'f builtins \<Rightarrow> 'f orchestrator \<Rightarrow> 'f session \<Rightarrow> 'f pyval \<Rightarrow> 'f pyval
     \<Rightarrow> py_error \<times> 'f session + 'f session" where
  "set_variable_from_source B W s var_name source =
     (case tool_registry W of
        Some reg \<Rightarrow>
          (case execute_tool_call B source (the_variables s) reg of
             Inl e \<Rightarrow> Inl (e, s)
           | Inr result \<Rightarrow>
               if result \<noteq> VNone then set_variable s var_name result
               else set_variable s var_name source)
      | None \<Rightarrow> set_variable s var_name source)"

text \<open>\<^verbatim>\<open>Orchestrator.update_variable\<close>: \<^verbatim>\<open>.append\<close> exists on lists only.\<close>

definition update_variable ::
  "'f session \<Rightarrow> 'f pyval \<Rightarrow> 'f pyval \<Rightarrow> 'f pyval \<Rightarrow> py_error \<times> 'f session + 'f session" where
  "update_variable s target_var source_var operation =
     (let s1 = ensure_variables s; vars = the_variables s1
      in if operation = VStr ''append'' then
           (case as_key target_var of
              Inl e \<Rightarrow> Inl (e, s1)
            | Inr k \<Rightarrow>
                (let vars1 = (if map_of vars k = None then AList.update k (VList []) vars else vars)
                 in case map_of vars1 k of
                      Some (VList xs) \<Rightarrow>
                        Inr (s1\<lparr>variables := Some (AList.update k (VList (xs @ [source_var])) vars1)\<rparr>)
                    | _ \<Rightarrow> Inl (AttributeError, s1\<lparr>variables := Some vars1\<rparr>)))
         else Inr s1)"

definition analyze_and_set_variable ::
  "'f builtins \<Rightarrow> 'f orchestrator \<Rightarrow> 'f session \<Rightarrow> 'f pyval \<Rightarrow> 'f pyval \<Rightarrow> 'f pyval
     \<Rightarrow> py_error \<times> 'f session + 'f session" where
  "analyze_and_set_variable B W s input_val output_var criteria =
     (if truthy B criteria then
        (case tool_registry W of
           None \<Rightarrow> set_variable s output_var (VBool False)
         | Some reg \<Rightarrow>
             (case has_tool reg criteria of
                Inl e \<Rightarrow> Inl (e, s)
              | Inr False \<Rightarrow> set_variable s output_var (VBool False)
              | Inr True \<Rightarrow>
                  (case registry_call reg criteria [input_val] [] of
                     Inl e \<Rightarrow> Inl (e, s)
                   | Inr result \<Rightarrow> set_variable s output_var result)))
      else set_variable s output_var (VBool False))"

section \<open>Internal processing of actions (\<^verbatim>\<open>Orchestrator._process_actions_internally\<close>)\<close>

definition no_output ::
  "nat \<Rightarrow> py_error \<times> 'f session + 'f session
     \<Rightarrow> py_error \<times> 'f session + 'f pydict list \<times> 'f session \<times> nat" where
  "no_output n r = (case r of Inl es \<Rightarrow> Inl es | Inr s \<Rightarrow> Inr ([], s, n))"

text \<open>One round of the loop.  The result is the actions appended to
  \<^verbatim>\<open>client_actions\<close>, the session state, and the number of identifiers drawn from
  \<^verbatim>\<open>uuid.uuid4\<close> so far.  In the \<^verbatim>\<open>SET_VARIABLE\<close> branch with an \<^verbatim>\<open>action\<close> field the
  call and the assignment stand in a \<^verbatim>\<open>try\<close> whose handler assigns \<^verbatim>\<open>None\<close>.\<close>

definition process_action ::
  "'f builtins \<Rightarrow> 'f orchestrator \<Rightarrow> 'f pydict \<Rightarrow> 'f session \<Rightarrow> nat
     \<Rightarrow> py_error \<times> 'f session + 'f pydict list \<times> 'f session \<times> nat" where
  "process_action B W action s n =
     (let action_type = map_of action ''type'' in
      if action_type = Some (VStr ''SET_VARIABLE'') then
        (case map_of action ''target'' of
           None \<Rightarrow> Inl (KeyError, s)
         | Some target_var \<Rightarrow>
             (case map_of action ''source'' of
                Some source \<Rightarrow> no_output n (set_variable_from_source B W s target_var source)
              | None \<Rightarrow>
                  (case map_of action ''action'' of
                     None \<Rightarrow> Inr ([], s, n)
                   | Some action_name \<Rightarrow>
                       (let interpolated_args =
                              interpolate_args_deep B (get_default action ''actionArgs'' (VDict []))
                                (the_variables s)
                        in case tool_registry W of
                             None \<Rightarrow> Inr ([], s, n)
                           | Some reg \<Rightarrow>
                               (case has_tool reg action_name of
                                  Inl e \<Rightarrow> Inl (e, s)
                                | Inr False \<Rightarrow> Inr ([], s, n)
                                | Inr True \<Rightarrow>
                                    no_output n
                                      (set_variable s target_var
                                         (case call_kwargs reg action_name interpolated_args of
                                            Inl e \<Rightarrow> VNone
                                          | Inr result \<Rightarrow> result)))))))
      else if action_type = Some (VStr ''UPDATE_VARIABLE'') then
        (case map_of action ''target'' of
           None \<Rightarrow> Inl (KeyError, s)
         | Some target_var \<Rightarrow>
             (case map_of action ''source'' of
                None \<Rightarrow> Inl (KeyError, s)
              | Some source_var \<Rightarrow>
                  (case map_of action ''operation'' of
                     None \<Rightarrow> Inl (KeyError, s)
                   | Some operation \<Rightarrow>
                       no_output n (update_variable s target_var source_var operation))))
      else if action_type = Some (VStr ''ANALYZE_RESPONSE'') then
        (case map_of action ''input'' of
           None \<Rightarrow> Inl (KeyError, s)
         | Some input_val \<Rightarrow>
             (case map_of action ''output_bool'' of
                None \<Rightarrow> Inl (KeyError, s)
              | Some output_var \<Rightarrow>
                  no_output n
                    (analyze_and_set_variable B W s input_val output_var
                       (get_default action ''criteria'' VNone))))
      else if action_type = Some (VStr ''PRESENT_CONTENT'') then Inr ([action], s, n)
      else if action_type = Some (VStr ''AWAIT_USER_INPUT'') then
        (let action1 = AList.update ''id'' (VStr (uuid4 B n)) action
         in Inr ([action1], s\<lparr>pending_action := Some action1\<rparr>, Suc n))
      else if action_type = Some (VStr ''END_WORKFLOW'') then Inr ([action], s, n)
      else Inr ([action], s, n))"

fun process_actions ::
  "'f builtins \<Rightarrow> 'f orchestrator \<Rightarrow> 'f pydict list \<Rightarrow> 'f session \<Rightarrow> nat \<Rightarrow> 'f outcome" where
  "process_actions B W [] s n = Return [] s"
| "process_actions B W (action # actions) s n =
     (case process_action B W action s n of
        Inl (e, s1) \<Rightarrow> Raise e s1
      | Inr (out, s1, n1) \<Rightarrow>
          (case process_actions B W actions s1 n1 of
             Raise e s2 \<Rightarrow> Raise e s2
           | Return client_actions s2 \<Rightarrow> Return (out @ client_actions) s2))"

definition process_actions_internally ::
  "'f builtins \<Rightarrow> 'f orchestrator \<Rightarrow> 'f pydict list \<Rightarrow> 'f session \<Rightarrow> 'f outcome" where
  "process_actions_internally B W actions s = process_actions B W actions s 0"

section \<open>The step function (\<^verbatim>\<open>Orchestrator.get_next_step\<close>)\<close>

text \<open>Iterating a value, as \<^verbatim>\<open>for x in v\<close> and \<^verbatim>\<open>list.extend(v)\<close> do.\<close>

fun iterate :: "'f pyval \<Rightarrow> py_error + 'f pyval list" where
  "iterate (VList xs) = Inr xs"
| "iterate (VStr s) = Inr (map (\<lambda>c. VStr [c]) s)"
| "iterate (VDict kvs) = Inr (map (\<lambda>kv. VStr (fst kv)) kvs)"
| "iterate v = Inl TypeError"

text \<open>The \<^verbatim>\<open>for\<close> loop over the rules: \<open>Some\<close> of the \<^verbatim>\<open>then\<close> list of the first rule
  whose condition holds (the \<^verbatim>\<open>break\<close>), \<open>None\<close> when the loop runs to its end.\<close>

fun eval_rules ::
  "'f builtins \<Rightarrow> 'f pydict \<Rightarrow> 'f pyval list \<Rightarrow> py_error + 'f pyval list option" where
  "eval_rules B vars [] = Inr None"
| "eval_rules B vars (VDict rule # rules) =
     (case evaluate_structured_condition B rule vars of
        Inl e \<Rightarrow> Inl e
      | Inr True \<Rightarrow>
          (case iterate (get_default rule ''then'' (VList [])) of
             Inl e \<Rightarrow> Inl e
           | Inr acts \<Rightarrow> Inr (Some acts))
      | Inr False \<Rightarrow> eval_rules B vars rules)"
| "eval_rules B vars (r # rules) = Inl AttributeError"

text \<open>The \<^verbatim>\<open>CONDITION\<close> branch up to the test for an empty list.  The \<^verbatim>\<open>else\<close> clause
  of the loop reads \<^verbatim>\<open>block['rules'][-1]\<close>, which fails when there is no rule.\<close>

definition condition_actions ::
  "'f builtins \<Rightarrow> 'f pydict \<Rightarrow> 'f pydict \<Rightarrow> py_error + 'f pyval list" where
  "condition_actions B vars block =
     (case map_of block ''rules'' of
        None \<Rightarrow> Inl KeyError
      | Some rules \<Rightarrow>
          (case iterate rules of
             Inl e \<Rightarrow> Inl e
           | Inr rs \<Rightarrow>
               (case eval_rules B vars rs of
                  Inl e \<Rightarrow> Inl e
                | Inr (Some acts) \<Rightarrow> Inr acts
                | Inr None \<Rightarrow>
                    if rs = [] then Inl (case rules of VDict kvs \<Rightarrow> KeyError | _ \<Rightarrow> IndexError)
                    else (case last rs of
                            VDict final_rule \<Rightarrow>
                              if map_of final_rule ''else'' \<noteq> None
                              then iterate (get_default final_rule ''else'' (VList []))
                              else Inr []
                          | _ \<Rightarrow> Inl AttributeError))))"

definition is_goto :: "'f pydict \<Rightarrow> bool" where
  "is_goto a = (map_of a ''type'' = Some (VStr ''GOTO_NODE''))"

text \<open>The interpolation of one action: every field, except \<^verbatim>\<open>action\<close> and
  \<^verbatim>\<open>actionArgs\<close> of a \<^verbatim>\<open>SET_VARIABLE\<close>.\<close>

definition interpolate_action :: "'f builtins \<Rightarrow> 'f pydict \<Rightarrow> 'f pydict \<Rightarrow> 'f pydict" where
  "interpolate_action B vars action =
     map (\<lambda>kv. if map_of action ''type'' = Some (VStr ''SET_VARIABLE'')
                   \<and> (fst kv = ''action'' \<or> fst kv = ''actionArgs'')
                then kv else (fst kv, interpolate_variables B (snd kv) vars)) action"

fun as_dicts :: "'f pyval list \<Rightarrow> 'f pydict list option" where
  "as_dicts [] = Some []"
| "as_dicts (VDict a # vs) = map_option ((#) a) (as_dicts vs)"
| "as_dicts (v # vs) = None"

text \<open>From the separation of the \<^verbatim>\<open>GOTO_NODE\<close> action to the end of the function.
  An action that is not a dictionary has no \<^verbatim>\<open>get\<close>.\<close>

definition run_actions ::
  "'f builtins \<Rightarrow> 'f orchestrator \<Rightarrow> 'f session \<Rightarrow> 'f pyval list \<Rightarrow> 'f outcome" where
  "run_actions B W s actions_to_perform =
     (case as_dicts actions_to_perform of
        None \<Rightarrow> Raise AttributeError s
      | Some acts \<Rightarrow>
          (let goto_action = find is_goto acts;
               non_goto_actions = filter (\<lambda>a. \<not> is_goto a) acts;
               final_actions = map (interpolate_action B (the_variables s)) non_goto_actions
           in case goto_action of
                Some g \<Rightarrow>
                  (case map_of g ''target'' of
                     None \<Rightarrow> Raise KeyError s
                   | Some target \<Rightarrow>
                       process_actions_internally B W final_actions
                         (s\<lparr>current_node_id := Some target, current_block_index := Some 0\<rparr>))
              | None \<Rightarrow>
                  (case current_block_index s of
                     None \<Rightarrow> Raise KeyError s
                   | Some i \<Rightarrow>
                       process_actions_internally B W final_actions
                         (s\<lparr>current_block_index := Some (i + 1)\<rparr>))))"

definition END_WORKFLOW :: "'f pydict" where
  "END_WORKFLOW = [(''type'', VStr ''END_WORKFLOW'')]"

text \<open>The function calls itself in three places; the first argument is the number of
  nested calls the interpreter still allows (Python raises \<^verbatim>\<open>RecursionError\<close> beyond its
  recursion limit).  The call that moves to the next node stands in a \<^verbatim>\<open>try\<close> with
  \<^verbatim>\<open>except ValueError\<close>.\<close>

fun get_next_step ::
  "nat \<Rightarrow> 'f builtins \<Rightarrow> 'f orchestrator \<Rightarrow> 'f session \<Rightarrow> 'f outcome" where
  "get_next_step 0 B W s = Raise RecursionError s"
| "get_next_step (Suc depth) B W s =
     (let block_index = (case current_block_index s of None \<Rightarrow> 0 | Some i \<Rightarrow> i);
          vars = the_variables s
      in case (case current_node_id s of None \<Rightarrow> None
               | Some v \<Rightarrow> if truthy B v then Some v else None) of
           None \<Rightarrow>
             (case node_order W of
                [] \<Rightarrow> Raise IndexError s
              | first # others \<Rightarrow>
                  get_next_step depth B W
                    (s\<lparr>current_node_id := Some (VStr first), current_block_index := Some 0\<rparr>))
         | Some node_id \<Rightarrow>
             (case nodes_get W node_id of
                Inl e \<Rightarrow> Raise e s
              | Inr None \<Rightarrow> Return [END_WORKFLOW] s
              | Inr (Some blocks) \<Rightarrow>
                  if block_index \<ge> int (length blocks) then
                    (case index_of (map VStr (node_order W)) node_id of
                       None \<Rightarrow> Return [END_WORKFLOW] s
                     | Some i \<Rightarrow>
                         if i + 1 < length (node_order W) then
                           (case get_next_step depth B W
                                   (s\<lparr>current_node_id := Some (VStr (node_order W ! (i + 1))),
                                      current_block_index := Some 0\<rparr>) of
                              Raise e s1 \<Rightarrow>
                                if e = ValueError then Return [END_WORKFLOW] s1 else Raise e s1
                            | Return acts s1 \<Rightarrow> Return acts s1)
                         else Return [END_WORKFLOW] s)
                  else
                    (case py_index blocks block_index of
                       None \<Rightarrow> Raise IndexError s
                     | Some block \<Rightarrow>
                         (case map_of block ''type'' of
                            None \<Rightarrow> Raise KeyError s
                          | Some block_type \<Rightarrow>
                              if block_type = VStr ''CONDITION'' then
                                (case condition_actions B vars block of
                                   Inl e \<Rightarrow> Raise e s
                                 | Inr acts \<Rightarrow>
                                     if acts = [] then
                                       (case current_block_index s of
                                          None \<Rightarrow> Raise KeyError s
                                        | Some i \<Rightarrow>
                                            get_next_step depth B W
                                              (s\<lparr>current_block_index := Some (i + 1)\<rparr>))
                                     else run_actions B W s acts)
                              else run_actions B W s [VDict block]))))"

declare get_next_step.simps(2) [simp del]

section \<open>Resuming after user input (\<^verbatim>\<open>Orchestrator.process_user_response\<close>)\<close>

definition process_user_response ::
  "'f builtins \<Rightarrow> 'f session \<Rightarrow> string \<Rightarrow> 'f pyval \<Rightarrow> py_error \<times> 'f session + 'f session" where
  "process_user_response B s action_id response =
     (case pending_action s of
        None \<Rightarrow> Inr s
      | Some pending \<Rightarrow>
          if pending \<noteq> [] \<and> map_of pending ''id'' = Some (VStr action_id) then
            (let target_var = get_default pending ''target'' VNone
             in case (if truthy B target_var then set_variable s target_var response else Inr s) of
                  Inl es \<Rightarrow> Inl es
                | Inr s1 \<Rightarrow>
                    (let s2 = s1\<lparr>pending_action := None\<rparr>
                     in case current_block_index s2 of
                          None \<Rightarrow> Inl (KeyError, s2)
                        | Some i \<Rightarrow> Inr (s2\<lparr>current_block_index := Some (i + 1)\<rparr>)))
          else Inr s)"

section \<open>Predicates used in the statements\<close>

text \<open>The session holds a pending action whose identifier is \<open>action_id\<close>.\<close>

definition pending_matches :: "'f session \<Rightarrow> string \<Rightarrow> bool" where
  "pending_matches s action_id =
     (case pending_action s of
        None \<Rightarrow> False
      | Some pending \<Rightarrow> map_of pending ''id'' = Some (VStr action_id))"

text \<open>A value that can be a dictionary key; the operand that a rule compares (the value
  bound to its \<^verbatim>\<open>variable\<close>, the empty string when there is none); the operators of the
  evaluator.\<close>

fun hashable :: "'f pyval \<Rightarrow> bool" where
  "hashable (VList xs) = False"
| "hashable (VDict kvs) = False"
| "hashable v = True"

definition rule_operand :: "'f pydict \<Rightarrow> 'f pydict \<Rightarrow> 'f pyval" where
  "rule_operand vars rule =
     (case get_default rule ''variable'' (VStr []) of
        VStr k \<Rightarrow> get_default vars k (VStr [])
      | _ \<Rightarrow> VStr [])"

definition numeric_operators :: "string list" where
  "numeric_operators =
     [''greater_than'', ''less_than'', ''greater_than_or_equal'', ''less_than_or_equal'']"

definition known_operators :: "string list" where
  "known_operators = [''equals'', ''=='', ''not_equals'', ''!='', ''is_true'', ''is_false'',
     ''contains'', ''starts_with'', ''ends_with''] @ numeric_operators"

text \<open>A text seen as a sequence of segments: a literal character that is no brace, or a
  placeholder \<open>{name}\<close> whose name is a non-empty run of word and space characters.\<close>

datatype seg = Lit char | Hole string

fun render_seg :: "seg \<Rightarrow> string" where
  "render_seg (Lit c) = [c]"
| "render_seg (Hole n) = placeholder n"

definition render :: "seg list \<Rightarrow> string" where
  "render segs = concat (map render_seg segs)"

fun wf_seg :: "seg \<Rightarrow> bool" where
  "wf_seg (Lit c) = (c \<noteq> CHR 0x7B \<and> c \<noteq> CHR 0x7D)"
| "wf_seg (Hole n) = (n \<noteq> [] \<and> list_all is_name_char n)"

fun holes :: "seg list \<Rightarrow> string list" where
  "holes [] = []"
| "holes (Lit c # segs) = holes segs"
| "holes (Hole n # segs) = n # holes segs"

definition brace_free :: "string \<Rightarrow> bool" where
  "brace_free s = (CHR 0x7B \<notin> set s \<and> CHR 0x7D \<notin> set s)"

text \<open>The text that replaces a placeholder: the textual form of the value bound to the
  name, when there is one and it is not \<^verbatim>\<open>None\<close>.\<close>

definition replacement :: "'f builtins \<Rightarrow> 'f pydict \<Rightarrow> string \<Rightarrow> string option" where
  "replacement B vars n =
     (case map_of vars n of None \<Rightarrow> None | Some v \<Rightarrow> if v \<noteq> VNone then Some (py_str B v) else None)"

text \<open>The interpolation as the specification words it, for comparison with the code:
  every occurrence of a placeholder is located by the pattern, from the left; when its
  name is bound to a value that is not null, the textual form of the value is put in its
  place; otherwise the placeholder stays as it is.  All occurrences are replaced at once:
  the text put in is not read again.\<close>

function interpolate_spec :: "'f builtins \<Rightarrow> 'f pydict \<Rightarrow> string \<Rightarrow> string" where
  "interpolate_spec B vars [] = []"
| "interpolate_spec B vars (c # cs) =
     (if c = CHR 0x7B \<and> takeWhile is_name_char cs \<noteq> []
         \<and> startswith (dropWhile is_name_char cs) [CHR 0x7D]
      then (case replacement B vars (takeWhile is_name_char cs) of
              Some text \<Rightarrow> text
            | None \<Rightarrow> placeholder (takeWhile is_name_char cs))
           @ interpolate_spec B vars (tl (dropWhile is_name_char cs))
      else c # interpolate_spec B vars cs)"
  by pat_completeness auto
termination
  by (relation "measure (\<lambda>(B, vars, s). length s)")
     (auto simp: less_Suc_eq_le intro: order_trans [OF diff_le_self length_dropWhile_le])


definition subst_seg :: "'f builtins \<Rightarrow> 'f pydict \<Rightarrow> seg \<Rightarrow> string" where
  "subst_seg B vars seg =
     (case seg of
        Lit c \<Rightarrow> [c]
      | Hole n \<Rightarrow> (case replacement B vars n of Some text \<Rightarrow> text | None \<Rightarrow> placeholder n))"


text \<open>The segments after the placeholders of the names \<open>ns\<close> have been replaced.\<close>

fun subst_names :: "'f builtins \<Rightarrow> 'f pydict \<Rightarrow> string list \<Rightarrow> seg \<Rightarrow> seg list" where
  "subst_names B vars ns (Lit c) = [Lit c]"
| "subst_names B vars ns (Hole m) =
     (if m \<in> set ns
      then (case replacement B vars m of Some text \<Rightarrow> map Lit text | None \<Rightarrow> [Hole m])
      else [Hole m])"

definition pass :: "'f builtins \<Rightarrow> 'f pydict \<Rightarrow> string list \<Rightarrow> seg list \<Rightarrow> seg list" where
  "pass B vars ns segs = concat (map (subst_names B vars ns) segs)"

definition valid_name :: "string \<Rightarrow> bool" where
  "valid_name n = (n \<noteq> [] \<and> list_all is_name_char n)"

definition brace_free_value :: "'f builtins \<Rightarrow> 'f pydict \<Rightarrow> string \<Rightarrow> bool" where
  "brace_free_value B vars n =
     (case replacement B vars n of Some text \<Rightarrow> brace_free text | None \<Rightarrow> True)"

section \<open>Example data\<close>

text \<open>A toy float unit (small integers stand for the floats, larger ones overflow, the
  only numeric string is \<open>1\<close>), a generator of identifiers, and the workflow of the
  end-to-end scenario: node \<open>n1\<close> presents a text and awaits the user's name, node
  \<open>n2\<close> ends the workflow.\<close>

definition example_builtins :: "int builtins" where
  "example_builtins = \<lparr>float_str = (\<lambda>x. str_int x @ ''.0''), float_is_zero = (\<lambda>x. x = 0),
     float_of_int = (\<lambda>i. if \<bar>i\<bar> < 1000 then Some i else None),
     float_of_str = (\<lambda>s. if s = ''1'' then Some 1 else None),
     float_lt = (\<lambda>x y. x < y), float_le = (\<lambda>x y. x \<le> y),
     literal_eval = (\<lambda>s. None), uuid4 = (\<lambda>n. ''uuid-'' @ str_nat n)\<rparr>"

definition example_await :: "int pydict" where
  "example_await = [(''type'', VStr ''AWAIT_USER_INPUT''), (''target'', VStr ''Name'')]"

definition example_blocks :: "int pydict list" where
  "example_blocks = [[(''type'', VStr ''PRESENT_CONTENT''), (''payload'', VStr ''Hi'')], example_await]"

definition example_workflow :: "int orchestrator" where
  "example_workflow = \<lparr>workflow_nodes =
       [(''n1'', example_blocks), (''n2'', [[(''type'', VStr ''END_WORKFLOW'')]])],
     tool_registry = None\<rparr>"

definition session_at :: "string \<Rightarrow> int \<Rightarrow> int pydict \<Rightarrow> int session" where
  "session_at node i vars = \<lparr>current_node_id = Some (VStr node), current_block_index = Some i,
     variables = Some vars, pending_action = None\<rparr>"

definition example_pending :: "int pydict" where
  "example_pending =
     [(''type'', VStr ''AWAIT_USER_INPUT''), (''target'', VStr ''Name''), (''id'', VStr ''uuid-0'')]"

definition example_suspended :: "int session" where
  "example_suspended = \<lparr>current_node_id = Some (VStr ''n1''), current_block_index = Some 2,
     variables = Some [], pending_action = Some example_pending\<rparr>"

definition rule_of :: "int pyval \<Rightarrow> string \<Rightarrow> int pyval \<Rightarrow> int pydict" where
  "rule_of variable operator v =
     [(''variable'', variable), (''operator'', VStr operator), (''value'', v)]"

definition example_set_block :: "int pydict" where
  "example_set_block =
     [(''type'', VStr ''SET_VARIABLE''), (''target'', VStr ''Total''), (''source'', VStr ''{Count}'')]"

text \<open>A registry with a tool that always raises and one that recognises the answer
  \<open>yes\<close>, and a workflow with one node for each kind of internal action.\<close>

definition example_registry :: "int registry" where
  "example_registry name =
     (if name = ''boom'' then Some (\<lambda>args kwargs. Inl (ToolError ''boom''))
      else if name = ''is_yes'' then Some (\<lambda>args kwargs. Inr (VBool (args = [VStr ''yes''])))
      else None)"

definition example_tools :: "int orchestrator" where
  "example_tools = \<lparr>workflow_nodes =
       [(''update'', [[(''type'', VStr ''UPDATE_VARIABLE''), (''target'', VStr ''Notes''),
                       (''source'', VStr ''x''), (''operation'', VStr ''append'')]]),
        (''analyze'', [[(''type'', VStr ''ANALYZE_RESPONSE''), (''input'', VStr ''{Answer}''),
                        (''criteria'', VStr ''boom''), (''output_bool'', VStr ''Flag'')]]),
        (''call'', [[(''type'', VStr ''SET_VARIABLE''), (''target'', VStr ''Result''),
                     (''action'', VStr ''boom''), (''actionArgs'', VDict [])]]),
        (''set'', [example_set_block])],
     tool_registry = Some example_registry\<rparr>"








text \<open>Variables and a text for the interpolation examples.\<close>

definition example_vars :: "int pydict" where
  "example_vars = [(''Name'', VStr ''Al''), (''Items'', VList [VInt 1, VInt 2])]"

definition example_segs :: "seg list" where
  "example_segs = map Lit ''Hi '' @ [Hole ''Name'', Lit (CHR ''!'')]"

section \<open>Facts about the built-ins\<close>

lemma brace_not_name_char: "\<not> is_name_char (CHR 0x7D)" "\<not> is_name_char (CHR 0x7B)"
  by (simp_all add: is_name_char_def is_word_def is_space_def code_def)

lemma brace_not_space: "\<not> is_space (CHR 0x7D)" "\<not> is_space (CHR 0x7B)"
  by (simp_all add: is_space_def code_def)

lemma strip_placeholder: "strip (placeholder n) = placeholder n"
  by (simp add: strip_def placeholder_def brace_not_space)

lemma takeWhile_name:
  "\<forall>c\<in>set n. is_name_char c \<Longrightarrow> takeWhile is_name_char (n @ CHR 0x7D # rest) = n"
  by (simp add: brace_not_name_char)

lemma dropWhile_name:
  "\<forall>c\<in>set n. is_name_char c \<Longrightarrow> dropWhile is_name_char (n @ CHR 0x7D # rest) = CHR 0x7D # rest"
  by (simp add: brace_not_name_char)

lemma match_single_placeholder:
  "n \<noteq> [] \<Longrightarrow> \<forall>c\<in>set n. is_name_char c \<Longrightarrow> match_single (placeholder n) = Some n"
  by (simp add: match_single_def placeholder_def takeWhile_name dropWhile_name brace_not_name_char)

lemma findall_placeholder_alone:
  "n \<noteq> [] \<Longrightarrow> \<forall>c\<in>set n. is_name_char c \<Longrightarrow> findall_placeholders (placeholder n) = [n]"
  by (simp add: placeholder_def takeWhile_name dropWhile_name startswith_def brace_not_name_char)

lemma map_of_rev_None: "k \<notin> set (map fst xs) \<Longrightarrow> map_of (rev xs) k = None"
  by (simp add: map_of_eq_None_iff)

section \<open>An unknown current node ends the workflow\<close>

text \<open>Claim C7.  When the current node identifier of the session is set (a non-empty
  string) and no node of the loaded workflow has that identifier, \<^verbatim>\<open>get_next_step\<close>
  returns exactly the one-element list \<^verbatim>\<open>[END_WORKFLOW]\<close>; it raises nothing and
  leaves the whole session state, its position included, as it was.\<close>

theorem unknown_node_ends_workflow:
  assumes "current_node_id s = Some (VStr k)" and "k \<noteq> []" and "k \<notin> set (node_order W)"
  shows "get_next_step (Suc depth) B W s = Return [END_WORKFLOW] s"
  using assms by (simp add: get_next_step.simps(2) node_order_def map_of_rev_None)

theorem unknown_node_ends_workflow_witness:
  "current_node_id (session_at ''nowhere'' 3 []) = Some (VStr ''nowhere'')
   \<and> ''nowhere'' \<noteq> [] \<and> ''nowhere'' \<notin> set (node_order example_workflow)
   \<and> get_next_step (Suc 0) example_builtins example_workflow (session_at ''nowhere'' 3 [])
       = Return [END_WORKFLOW] (session_at ''nowhere'' 3 [])"
proof -
  have a: "current_node_id (session_at ''nowhere'' 3 ([]::int pydict)) = Some (VStr ''nowhere'')"
    by (simp add: session_at_def)
  have b: "''nowhere'' \<noteq> []" by simp
  have c: "''nowhere'' \<notin> set (node_order example_workflow)"
    by (simp add: node_order_def example_workflow_def)
  show ?thesis
    using a b c unknown_node_ends_workflow [OF a b c, of 0 example_builtins] by simp
qed

section \<open>A binding to null: the two interpolation modes disagree\<close>

text \<open>Claim C10.  When the variables bind a name to \<^verbatim>\<open>None\<close>, the type-preserving
  interpolation of the string that is exactly the placeholder of that name returns
  \<^verbatim>\<open>None\<close>, whereas plain interpolation leaves the placeholder in the text as it is.\<close>

theorem null_binding_modes_disagree:
  assumes "var_name \<noteq> []" and "list_all is_name_char var_name"
    and "map_of vars var_name = Some VNone"
  shows "interpolate_with_types B (VStr (placeholder var_name)) vars = VNone
       \<and> interpolate_variables B (VStr (placeholder var_name)) vars = VStr (placeholder var_name)"
  using assms
  by (simp add: interpolate_with_types_def strip_placeholder match_single_placeholder
      interpolate_variables_def interpolate_str_def findall_placeholder_alone list_all_iff)

theorem null_binding_modes_disagree_witness:
  "''N'' \<noteq> [] \<and> list_all is_name_char ''N''
   \<and> map_of [(''N'', VNone :: int pyval)] ''N'' = Some VNone
   \<and> interpolate_with_types example_builtins (VStr (placeholder ''N'')) [(''N'', VNone)] = VNone
   \<and> interpolate_variables example_builtins (VStr (placeholder ''N'')) [(''N'', VNone)]
       = VStr (placeholder ''N'')"
proof -
  have a: "''N'' \<noteq> []" by simp
  have b: "list_all is_name_char ''N''"
    by (simp add: is_name_char_def is_word_def code_def)
  have c: "map_of [(''N'', VNone :: int pyval)] ''N'' = Some VNone" by simp
  show ?thesis
    using a b c null_binding_modes_disagree [OF a b c, of example_builtins] by simp
qed

section \<open>Resuming after user input\<close>

lemma process_user_response_no_match:
  "\<not> pending_matches s action_id \<Longrightarrow> process_user_response B s action_id response = Inr s"
  by (auto simp: pending_matches_def process_user_response_def split: option.splits)

lemma process_user_response_clears:
  assumes "pending_matches s action_id"
    and "process_user_response B s action_id response = Inr s'"
  shows "pending_action s' = None"
proof -
  from assms(1) obtain pending where p: "pending_action s = Some pending"
    and i: "map_of pending ''id'' = Some (VStr action_id)"
    by (auto simp: pending_matches_def split: option.splits)
  from i have ne: "pending \<noteq> []" by auto
  show ?thesis
    using assms(2) p i ne
    by (auto simp: process_user_response_def Let_def split: sum.splits option.splits if_splits)
qed

lemma process_user_response_changes:
  "pending_matches s action_id \<Longrightarrow> process_user_response B s action_id response \<noteq> Inr s"
proof
  assume m: "pending_matches s action_id"
    and e: "process_user_response B s action_id response = Inr s"
  from process_user_response_clears [OF m e] m show False
    by (simp add: pending_matches_def)
qed

lemma process_user_response_match:
  assumes "pending_action s = Some pending"
    and "map_of pending ''id'' = Some (VStr action_id)"
    and "map_of pending ''target'' = Some (VStr target)" and "target \<noteq> []"
    and "current_block_index s = Some i"
  shows "process_user_response B s action_id response =
           Inr (s\<lparr>current_block_index := Some (i + 1),
                 variables := Some (AList.update target response (the_variables s)),
                 pending_action := None\<rparr>)"
proof -
  from assms(2) have ne: "pending \<noteq> []" by auto
  show ?thesis using assms ne
    by (auto simp: process_user_response_def Let_def get_default_def set_variable_def
        ensure_variables_def the_variables_def split: option.splits)
qed

lemma process_user_response_match_no_target:
  assumes "pending_action s = Some pending"
    and "map_of pending ''id'' = Some (VStr action_id)"
    and "map_of pending ''target'' = None"
    and "current_block_index s = Some i"
  shows "process_user_response B s action_id response =
           Inr (s\<lparr>current_block_index := Some (i + 1), pending_action := None\<rparr>)"
proof -
  from assms(2) have ne: "pending \<noteq> []" by auto
  show ?thesis using assms ne
    by (auto simp: process_user_response_def Let_def get_default_def split: option.splits)
qed

text \<open>Claim C6.  \<^verbatim>\<open>process_user_response(session, action_id, response)\<close> changes the
  session exactly when the session holds a pending action whose identifier is
  \<open>action_id\<close>.  With no pending action, or one of another identifier, it returns
  normally and the session state is the one it was given.  With a matching pending
  action, a target variable named by it and a block index in the session, the target
  variable is set to the response, the pending action is removed and the block index
  grows by exactly one; when the pending action names no target, only the last two
  happen.\<close>

theorem process_user_response_contract:
  "(process_user_response B s action_id response = Inr s) = (\<not> pending_matches s action_id)
   \<and> (\<forall>pending target i.
         pending_action s = Some pending \<and> map_of pending ''id'' = Some (VStr action_id)
         \<and> map_of pending ''target'' = Some (VStr target) \<and> target \<noteq> []
         \<and> current_block_index s = Some i
         \<longrightarrow> process_user_response B s action_id response =
               Inr (s\<lparr>current_block_index := Some (i + 1),
                     variables := Some (AList.update target response (the_variables s)),
                     pending_action := None\<rparr>))
   \<and> (\<forall>pending i.
         pending_action s = Some pending \<and> map_of pending ''id'' = Some (VStr action_id)
         \<and> map_of pending ''target'' = None \<and> current_block_index s = Some i
         \<longrightarrow> process_user_response B s action_id response =
               Inr (s\<lparr>current_block_index := Some (i + 1), pending_action := None\<rparr>))"
proof (intro conjI allI impI)
  show "(process_user_response B s action_id response = Inr s) = (\<not> pending_matches s action_id)"
    using process_user_response_no_match [of s action_id B response]
      process_user_response_changes [of s action_id B response] by blast
next
  fix pending target i
  assume "pending_action s = Some pending \<and> map_of pending ''id'' = Some (VStr action_id)
         \<and> map_of pending ''target'' = Some (VStr target) \<and> target \<noteq> []
         \<and> current_block_index s = Some i"
  then show "process_user_response B s action_id response =
               Inr (s\<lparr>current_block_index := Some (i + 1),
                     variables := Some (AList.update target response (the_variables s)),
                     pending_action := None\<rparr>)"
    using process_user_response_match by blast
next
  fix pending i
  assume "pending_action s = Some pending \<and> map_of pending ''id'' = Some (VStr action_id)
         \<and> map_of pending ''target'' = None \<and> current_block_index s = Some i"
  then show "process_user_response B s action_id response =
               Inr (s\<lparr>current_block_index := Some (i + 1), pending_action := None\<rparr>)"
    using process_user_response_match_no_target by blast
qed

text \<open>The session of the scenario after the second step, answered with its own
  identifier and with a stale one.\<close>

theorem process_user_response_contract_witness:
  "pending_action (example_suspended) = Some example_pending
   \<and> map_of example_pending ''id'' = Some (VStr ''uuid-0'')
   \<and> map_of example_pending ''target'' = Some (VStr ''Name'') \<and> ''Name'' \<noteq> []
   \<and> current_block_index example_suspended = Some 2
   \<and> process_user_response example_builtins example_suspended ''uuid-0'' (VStr ''Alice'')
       = Inr \<lparr>current_node_id = Some (VStr ''n1''), current_block_index = Some 3,
              variables = Some [(''Name'', VStr ''Alice'')], pending_action = None\<rparr>
   \<and> \<not> pending_matches example_suspended ''uuid-7''
   \<and> process_user_response example_builtins example_suspended ''uuid-7'' (VStr ''Alice'')
       = Inr example_suspended"
proof -
  have a: "pending_action example_suspended = Some example_pending
      \<and> map_of example_pending ''id'' = Some (VStr ''uuid-0'')
      \<and> map_of example_pending ''target'' = Some (VStr ''Name'') \<and> ''Name'' \<noteq> []
      \<and> current_block_index example_suspended = Some 2"
    by (simp add: example_suspended_def example_pending_def)
  have b: "\<not> pending_matches example_suspended ''uuid-7''"
    by (simp add: pending_matches_def example_suspended_def example_pending_def)
  from process_user_response_contract [of example_builtins example_suspended "''uuid-0''" "VStr ''Alice''"] a
  have c: "process_user_response example_builtins example_suspended ''uuid-0'' (VStr ''Alice'') =
      Inr (example_suspended\<lparr>current_block_index := Some (2 + 1),
            variables := Some (AList.update ''Name'' (VStr ''Alice'') (the_variables example_suspended)),
            pending_action := None\<rparr>)"
    by blast
  from process_user_response_contract [of example_builtins example_suspended "''uuid-7''" "VStr ''Alice''"] b
  have d: "process_user_response example_builtins example_suspended ''uuid-7'' (VStr ''Alice'')
      = Inr example_suspended"
    by blast
  from c have c': "process_user_response example_builtins example_suspended ''uuid-0'' (VStr ''Alice'')
       = Inr \<lparr>current_node_id = Some (VStr ''n1''), current_block_index = Some 3,
              variables = Some [(''Name'', VStr ''Alice'')], pending_action = None\<rparr>"
    by (simp add: example_suspended_def the_variables_def)
  from a b c' d show ?thesis by simp
qed

section \<open>A step at an \<^verbatim>\<open>AWAIT_USER_INPUT\<close> block\<close>









section \<open>The condition evaluator returns a boolean\<close>

lemma dict_get_hashable:
  "hashable k \<Longrightarrow>
   dict_get vars k (VStr []) =
     Inr (case k of VStr n \<Rightarrow> get_default vars n (VStr []) | _ \<Rightarrow> VStr [])"
  by (cases k) (simp_all add: get_default_def)

lemma evaluate_hashable:
  assumes "hashable (get_default rule ''variable'' (VStr []))"
  shows "evaluate_structured_condition B rule vars =
     Inr (case eval_operator B (get_default rule ''operator'' (VStr ''equals''))
                 (rule_operand vars rule) (get_default rule ''value'' (VStr [])) of
            Inl e \<Rightarrow> False | Inr r \<Rightarrow> r)"
  using dict_get_hashable [OF assms, of vars]
  by (simp add: evaluate_structured_condition_def Let_def rule_operand_def split: sum.splits)

lemma float_compare_fails:
  "py_float B a = Inl e \<or> py_float B b = Inl e \<Longrightarrow>
   float_compare B cmp a b = Inr False \<or> (\<exists>e'. float_compare B cmp a b = Inl e')"
  by (auto simp: float_compare_def split: sum.splits)

lemma eval_operator_numeric_fails:
  assumes "op \<in> set numeric_operators"
    and "py_float B a = Inl e \<or> py_float B b = Inl e"
  shows "eval_operator B (VStr op) a b = Inr False \<or> (\<exists>e'. eval_operator B (VStr op) a b = Inl e')"
  using assms(1) float_compare_fails [OF assms(2)]
  by (auto simp: numeric_operators_def eval_operator_def)

lemma eval_operator_unknown:
  "operator \<notin> VStr ` set known_operators \<Longrightarrow> eval_operator B operator a b = Inr False"
  by (auto simp: known_operators_def numeric_operators_def eval_operator_def)

text \<open>Claim C9, as the code has it.  For every rule whose \<^verbatim>\<open>variable\<close> field is absent
  or hashable (a string, as a variable name is, or a number, a boolean or null) the
  structured condition evaluator returns a boolean and raises nothing; an operator that
  it does not know gives \<open>False\<close>; a numeric comparison one of whose operands cannot be
  coerced to a float gives \<open>False\<close>; and whenever the evaluation of the operator raises,
  the result is \<open>False\<close>.\<close>

theorem structured_condition_total:
  assumes "hashable (get_default rule ''variable'' (VStr []))"
  shows "(\<exists>result. evaluate_structured_condition B rule vars = Inr result)
    \<and> (get_default rule ''operator'' (VStr ''equals'') \<notin> VStr ` set known_operators
        \<longrightarrow> evaluate_structured_condition B rule vars = Inr False)
    \<and> (get_default rule ''operator'' (VStr ''equals'') \<in> VStr ` set numeric_operators
        \<and> (\<exists>e. py_float B (rule_operand vars rule) = Inl e
                 \<or> py_float B (get_default rule ''value'' (VStr [])) = Inl e)
        \<longrightarrow> evaluate_structured_condition B rule vars = Inr False)
    \<and> ((\<exists>e. eval_operator B (get_default rule ''operator'' (VStr ''equals''))
                (rule_operand vars rule) (get_default rule ''value'' (VStr [])) = Inl e)
        \<longrightarrow> evaluate_structured_condition B rule vars = Inr False)"
proof (intro conjI impI)
  show "\<exists>result. evaluate_structured_condition B rule vars = Inr result"
    by (simp add: evaluate_hashable [OF assms])
next
  assume "get_default rule ''operator'' (VStr ''equals'') \<notin> VStr ` set known_operators"
  then show "evaluate_structured_condition B rule vars = Inr False"
    by (simp add: evaluate_hashable [OF assms] eval_operator_unknown)
next
  assume h: "get_default rule ''operator'' (VStr ''equals'') \<in> VStr ` set numeric_operators
        \<and> (\<exists>e. py_float B (rule_operand vars rule) = Inl e
                 \<or> py_float B (get_default rule ''value'' (VStr [])) = Inl e)"
  then obtain op e where op: "get_default rule ''operator'' (VStr ''equals'') = VStr op"
      "op \<in> set numeric_operators"
    and e: "py_float B (rule_operand vars rule) = Inl e
                 \<or> py_float B (get_default rule ''value'' (VStr [])) = Inl e"
    by auto
  from eval_operator_numeric_fails [OF op(2) e]
  show "evaluate_structured_condition B rule vars = Inr False"
    by (auto simp: evaluate_hashable [OF assms] op(1))
next
  assume "\<exists>e. eval_operator B (get_default rule ''operator'' (VStr ''equals''))
                (rule_operand vars rule) (get_default rule ''value'' (VStr [])) = Inl e"
  then show "evaluate_structured_condition B rule vars = Inr False"
    by (auto simp: evaluate_hashable [OF assms])
qed

text \<open>Three rules on the variables \<open>x = "abc"\<close>, \<open>n = 5000\<close>: a numeric comparison of a
  string that is no number, an operator that does not exist, and a numeric comparison
  of an integer too large for a float, which raises \<^verbatim>\<open>OverflowError\<close> inside the
  \<^verbatim>\<open>try\<close>.\<close>

theorem structured_condition_total_witness:
  "hashable (get_default (rule_of (VStr ''x'') ''greater_than'' (VStr ''1'')) ''variable'' (VStr []))
   \<and> get_default (rule_of (VStr ''x'') ''greater_than'' (VStr ''1'')) ''operator'' (VStr ''equals'')
        \<in> VStr ` set numeric_operators
   \<and> py_float example_builtins
        (rule_operand [(''x'', VStr ''abc''), (''n'', VInt 5000)]
           (rule_of (VStr ''x'') ''greater_than'' (VStr ''1''))) = Inl ValueError
   \<and> evaluate_structured_condition example_builtins
        (rule_of (VStr ''x'') ''greater_than'' (VStr ''1''))
        [(''x'', VStr ''abc''), (''n'', VInt 5000)] = Inr False
   \<and> get_default (rule_of (VStr ''x'') ''resembles'' (VStr ''1'')) ''operator'' (VStr ''equals'')
        \<notin> VStr ` set known_operators
   \<and> evaluate_structured_condition example_builtins
        (rule_of (VStr ''x'') ''resembles'' (VStr ''1''))
        [(''x'', VStr ''abc''), (''n'', VInt 5000)] = Inr False
   \<and> eval_operator example_builtins
        (get_default (rule_of (VStr ''n'') ''less_than'' (VStr ''1'')) ''operator'' (VStr ''equals''))
        (rule_operand [(''x'', VStr ''abc''), (''n'', VInt 5000)]
           (rule_of (VStr ''n'') ''less_than'' (VStr ''1'')))
        (get_default (rule_of (VStr ''n'') ''less_than'' (VStr ''1'')) ''value'' (VStr []))
        = Inl OverflowError
   \<and> evaluate_structured_condition example_builtins
        (rule_of (VStr ''n'') ''less_than'' (VStr ''1''))
        [(''x'', VStr ''abc''), (''n'', VInt 5000)] = Inr False"
proof -
  let ?vars = "[(''x'', VStr ''abc''), (''n'', VInt 5000)] :: int pydict"
  let ?r1 = "rule_of (VStr ''x'') ''greater_than'' (VStr ''1'')"
  let ?r2 = "rule_of (VStr ''x'') ''resembles'' (VStr ''1'')"
  let ?r3 = "rule_of (VStr ''n'') ''less_than'' (VStr ''1'')"
  have h1: "hashable (get_default ?r1 ''variable'' (VStr []))"
    and h2: "hashable (get_default ?r2 ''variable'' (VStr []))"
    and h3: "hashable (get_default ?r3 ''variable'' (VStr []))"
    by (simp_all add: rule_of_def get_default_def)
  have n1: "get_default ?r1 ''operator'' (VStr ''equals'') \<in> VStr ` set numeric_operators"
    by (simp add: rule_of_def get_default_def numeric_operators_def)
  have f1: "py_float example_builtins (rule_operand ?vars ?r1) = Inl ValueError"
    by (simp add: rule_of_def get_default_def rule_operand_def example_builtins_def)
  have u2: "get_default ?r2 ''operator'' (VStr ''equals'') \<notin> VStr ` set known_operators"
    by (simp add: rule_of_def get_default_def numeric_operators_def known_operators_def)
  have e3: "eval_operator example_builtins (get_default ?r3 ''operator'' (VStr ''equals''))
        (rule_operand ?vars ?r3) (get_default ?r3 ''value'' (VStr [])) = Inl OverflowError"
    by (simp add: rule_of_def get_default_def rule_operand_def example_builtins_def
        eval_operator_def float_compare_def)
  from structured_condition_total [OF h1, of example_builtins ?vars] n1 f1
  have c1: "evaluate_structured_condition example_builtins ?r1 ?vars = Inr False" by blast
  from structured_condition_total [OF h2, of example_builtins ?vars] u2
  have c2: "evaluate_structured_condition example_builtins ?r2 ?vars = Inr False" by blast
  from structured_condition_total [OF h3, of example_builtins ?vars] e3
  have c3: "evaluate_structured_condition example_builtins ?r3 ?vars = Inr False" by blast
  from h1 n1 f1 c1 u2 c2 e3 c3 show ?thesis by blast
qed

text \<open>The claim for every rule fails on a rule whose \<^verbatim>\<open>variable\<close> is a list: the lookup
  \<^verbatim>\<open>variables.get(variable, '')\<close> stands before the \<^verbatim>\<open>try\<close> and raises
  \<^verbatim>\<open>TypeError\<close> (unhashable type), which nothing catches.\<close>

theorem structured_condition_raises_counterexample:
  "evaluate_structured_condition example_builtins
     (rule_of (VList [VStr ''x'']) ''equals'' (VStr ''1'')) [(''x'', VStr ''abc'')] = Inl TypeError"
  by (simp add: evaluate_structured_condition_def rule_of_def get_default_def)

section \<open>\<^verbatim>\<open>UPDATE_VARIABLE\<close>: appending to a variable\<close>

lemma the_variables_ensure [simp]: "the_variables (ensure_variables s) = the_variables s"
  by (simp add: the_variables_def ensure_variables_def split: option.splits)

text \<open>What \<^verbatim>\<open>Orchestrator.update_variable\<close> does: an absent target becomes the list of
  the one source value, a list gets the source value at its end, another operation
  changes no variable (the mapping itself is created when the session had none), and a
  target bound to anything but a list makes \<^verbatim>\<open>.append\<close> raise.\<close>

lemma update_variable_append_absent:
  "map_of (the_variables s) k = None \<Longrightarrow>
   update_variable s (VStr k) v (VStr ''append'') =
     Inr ((ensure_variables s)\<lparr>variables := Some (AList.update k (VList [v]) (the_variables s))\<rparr>)"
  by (simp add: update_variable_def Let_def update_conv')

lemma update_variable_append_list:
  "map_of (the_variables s) k = Some (VList xs) \<Longrightarrow>
   update_variable s (VStr k) v (VStr ''append'') =
     Inr ((ensure_variables s)\<lparr>variables :=
            Some (AList.update k (VList (xs @ [v])) (the_variables s))\<rparr>)"
  by (simp add: update_variable_def Let_def)

lemma update_variable_other_operation:
  "operation \<noteq> VStr ''append'' \<Longrightarrow>
   update_variable s target_var source_var operation = Inr (ensure_variables s)"
  by (simp add: update_variable_def Let_def)

lemma update_variable_append_not_list:
  "map_of (the_variables s) k = Some x \<Longrightarrow> \<forall>xs. x \<noteq> VList xs \<Longrightarrow>
   update_variable s (VStr k) v (VStr ''append'') = Inl (AttributeError, ensure_variables s)"
  by (cases x)
     (simp_all add: update_variable_def Let_def ensure_variables_def the_variables_def
        split: option.splits)

text \<open>Claim C2 on the code.  The claim has a target that holds a value other than a
  sequence coerced into a one-element sequence, with no exception for any existing value.
  With the variable \<open>Notes\<close> bound to the string \<open>abc\<close>, the step at the
  \<^verbatim>\<open>UPDATE_VARIABLE\<close> block with operation \<open>append\<close> raises \<^verbatim>\<open>AttributeError\<close>
  (a string has no \<^verbatim>\<open>append\<close>) out of \<^verbatim>\<open>get_next_step\<close>; the variable keeps its
  value.\<close>

theorem update_variable_non_list_raises:
  "get_next_step (Suc 0) example_builtins example_tools
       (session_at ''update'' 0 [(''Notes'', VStr ''abc'')])
     = Raise AttributeError
         \<lparr>current_node_id = Some (VStr ''update''), current_block_index = Some 1,
          variables = Some [(''Notes'', VStr ''abc'')], pending_action = None\<rparr>"
  by code_simp

section \<open>A tool that raises\<close>

lemma analyze_tool_raises:
  "tool_registry W = Some reg \<Longrightarrow> truthy B criteria \<Longrightarrow> has_tool reg criteria = Inr True \<Longrightarrow>
   registry_call reg criteria [input_val] [] = Inl e \<Longrightarrow>
   analyze_and_set_variable B W s input_val output_var criteria = Inl (e, s)"
  by (simp add: analyze_and_set_variable_def)

lemma set_variable_action_tool_raises:
  "map_of action ''type'' = Some (VStr ''SET_VARIABLE'') \<Longrightarrow>
   map_of action ''target'' = Some (VStr target) \<Longrightarrow> map_of action ''source'' = None \<Longrightarrow>
   map_of action ''action'' = Some name \<Longrightarrow> tool_registry W = Some reg \<Longrightarrow>
   has_tool reg name = Inr True \<Longrightarrow>
   call_kwargs reg name
     (interpolate_args_deep B (get_default action ''actionArgs'' (VDict [])) (the_variables s))
     = Inl e \<Longrightarrow>
   process_action B W action s n =
     Inr ([], (ensure_variables s)\<lparr>variables := Some (AList.update target VNone (the_variables s))\<rparr>, n)"
  by (simp add: process_action_def Let_def no_output_def set_variable_def)

text \<open>Claim C4 on the code.  The claim has the exception of a tool caught at the call
  site for \<^verbatim>\<open>SET_VARIABLE\<close> and for \<^verbatim>\<open>ANALYZE_RESPONSE\<close> alike.  The call of
  \<^verbatim>\<open>SET_VARIABLE\<close> with an \<^verbatim>\<open>action\<close> field stands in a \<^verbatim>\<open>try\<close>: with the tool
  \<open>boom\<close> the target \<open>Result\<close> becomes \<^verbatim>\<open>None\<close> and the step returns.  The call in
  \<^verbatim>\<open>analyze_and_set_variable\<close> stands in none: with the same tool as criteria the
  exception leaves \<^verbatim>\<open>get_next_step\<close> and \<open>Flag\<close> is never assigned.\<close>

theorem analyze_response_tool_error_escapes:
  "get_next_step (Suc 0) example_builtins example_tools
       (session_at ''analyze'' 0 [(''Answer'', VStr ''yes'')])
     = Raise (ToolError ''boom'')
         \<lparr>current_node_id = Some (VStr ''analyze''), current_block_index = Some 1,
          variables = Some [(''Answer'', VStr ''yes'')], pending_action = None\<rparr>
   \<and> get_next_step (Suc 0) example_builtins example_tools (session_at ''call'' 0 [])
     = Return []
         \<lparr>current_node_id = Some (VStr ''call''), current_block_index = Some 1,
          variables = Some [(''Result'', VNone)], pending_action = None\<rparr>"
  by code_simp

section \<open>\<^verbatim>\<open>SET_VARIABLE\<close> with a direct source\<close>

lemma the_variables_index [simp]:
  "the_variables (s\<lparr>current_block_index := x\<rparr>) = the_variables s"
  by (simp add: the_variables_def)





section \<open>A step at a \<^verbatim>\<open>CONDITION\<close> block\<close>









text \<open>A \<^verbatim>\<open>CONDITION\<close> block with an empty list of rules is outside the statement above:
  the loop ends at once and \<^verbatim>\<open>block['rules'][-1]\<close> raises \<^verbatim>\<open>IndexError\<close>.\<close>

lemma condition_actions_no_rules:
  "map_of block ''rules'' = Some (VList []) \<Longrightarrow> condition_actions B vars block = Inl IndexError"
  by (simp add: condition_actions_def)

section \<open>Interpolation and its type-preserving variant\<close>

subsection \<open>Scanning a text made of segments\<close>

lemma render_Cons [simp]: "render (seg # segs) = render_seg seg @ render segs"
  and render_Nil [simp]: "render [] = []"
  by (simp_all add: render_def)

lemma render_append [simp]: "render (xs @ ys) = render xs @ render ys"
  by (simp add: render_def)

lemma scan_name:
  assumes "list_all is_name_char n"
  shows "takeWhile is_name_char (n @ CHR 0x7D # rest) = n"
    and "dropWhile is_name_char (n @ CHR 0x7D # rest) = CHR 0x7D # rest"
  using assms by (simp_all add: list_all_iff brace_not_name_char)

lemma findall_placeholder_Cons:
  "n \<noteq> [] \<Longrightarrow> list_all is_name_char n \<Longrightarrow>
   findall_placeholders (placeholder n @ rest) = n # findall_placeholders rest"
  by (simp add: placeholder_def scan_name startswith_def)

lemma interpolate_spec_placeholder_Cons:
  "n \<noteq> [] \<Longrightarrow> list_all is_name_char n \<Longrightarrow>
   interpolate_spec B vars (placeholder n @ rest) =
     (case replacement B vars n of Some text \<Rightarrow> text | None \<Rightarrow> placeholder n)
     @ interpolate_spec B vars rest"
  by (simp add: placeholder_def scan_name startswith_def split: option.splits)

lemma findall_render:
  "list_all wf_seg segs \<Longrightarrow> findall_placeholders (render segs) = holes segs"
proof (induction segs)
  case Nil
  then show ?case by simp
next
  case (Cons seg segs)
  show ?case
  proof (cases seg)
    case (Lit c)
    with Cons show ?thesis by simp
  next
    case (Hole n)
    with Cons show ?thesis by (simp add: findall_placeholder_Cons)
  qed
qed

lemma interpolate_spec_render:
  "list_all wf_seg segs \<Longrightarrow>
   interpolate_spec B vars (render segs) = concat (map (subst_seg B vars) segs)"
proof (induction segs)
  case Nil
  then show ?case by simp
next
  case (Cons seg segs)
  show ?case
  proof (cases seg)
    case (Lit c)
    with Cons show ?thesis by (simp add: subst_seg_def)
  next
    case (Hole n)
    with Cons show ?thesis by (simp add: interpolate_spec_placeholder_Cons subst_seg_def)
  qed
qed

subsection \<open>One replacement on a text made of segments\<close>

lemma name_char_not_brace: "is_name_char c \<Longrightarrow> c \<noteq> CHR 0x7B \<and> c \<noteq> CHR 0x7D"
  using brace_not_name_char by auto

lemma name_brace_free: "list_all is_name_char n \<Longrightarrow> CHR 0x7B \<notin> set n \<and> CHR 0x7D \<notin> set n"
  using brace_not_name_char by (auto simp: list_all_iff)

lemma replace_skip:
  "CHR 0x7B \<notin> set pre \<Longrightarrow>
   replace_nonempty (pre @ rest) (placeholder n) new = pre @ replace_nonempty rest (placeholder n) new"
  by (induction pre) (auto simp: startswith_def placeholder_def)

lemma replace_hit:
  "replace_nonempty (placeholder n @ rest) (placeholder n) new
     = new @ replace_nonempty rest (placeholder n) new"
proof -
  have "placeholder n @ rest = CHR 0x7B # (n @ CHR 0x7D # rest)" by (simp add: placeholder_def)
  moreover have "startswith (placeholder n @ rest) (placeholder n)" by (simp add: startswith_def)
  moreover have "drop (length (placeholder n)) (placeholder n @ rest) = rest" by simp
  moreover have "placeholder n \<noteq> []" by (simp add: placeholder_def)
  ultimately show ?thesis
    using replace_nonempty.simps(2) [of "CHR 0x7B" "n @ CHR 0x7D # rest" "placeholder n" new]
    by simp
qed

lemma takeWhile_until: "x \<notin> set m \<Longrightarrow> takeWhile (\<lambda>c. c \<noteq> x) (m @ x # r) = m"
  by (induction m) auto

lemma same_name:
  assumes "m @ CHR 0x7D # r1 = n @ CHR 0x7D # r2" and "CHR 0x7D \<notin> set m" and "CHR 0x7D \<notin> set n"
  shows "m = n"
proof -
  have "takeWhile (\<lambda>c. c \<noteq> CHR 0x7D) (m @ CHR 0x7D # r1) = m"
    using assms(2) by (rule takeWhile_until)
  moreover have "takeWhile (\<lambda>c. c \<noteq> CHR 0x7D) (n @ CHR 0x7D # r2) = n"
    using assms(3) by (rule takeWhile_until)
  ultimately show ?thesis using assms(1) by simp
qed

lemma no_hit:
  assumes "m \<noteq> n" and "CHR 0x7D \<notin> set m" and "CHR 0x7D \<notin> set n"
  shows "\<not> startswith (placeholder m @ rest) (placeholder n)"
proof
  assume "startswith (placeholder m @ rest) (placeholder n)"
  then have "take (length (placeholder n)) (placeholder m @ rest) = placeholder n"
    by (simp add: startswith_def)
  then have "placeholder m @ rest = placeholder n @ drop (length (placeholder n)) (placeholder m @ rest)"
    by (metis append_take_drop_id)
  then have "m @ CHR 0x7D # rest = n @ CHR 0x7D # drop (length (placeholder n)) (placeholder m @ rest)"
    by (simp add: placeholder_def)
  from same_name [OF this assms(2,3)] assms(1) show False by simp
qed

lemma replace_miss:
  assumes "m \<noteq> n" and "list_all is_name_char m" and "list_all is_name_char n"
  shows "replace_nonempty (placeholder m @ rest) (placeholder n) new
     = placeholder m @ replace_nonempty rest (placeholder n) new"
proof -
  have eq: "placeholder m @ rest = CHR 0x7B # ((m @ [CHR 0x7D]) @ rest)" by (simp add: placeholder_def)
  have nh: "\<not> startswith (CHR 0x7B # ((m @ [CHR 0x7D]) @ rest)) (placeholder n)"
    using no_hit [OF assms(1), of rest] name_brace_free [OF assms(2)] name_brace_free [OF assms(3)]
    unfolding eq by simp
  have "CHR 0x7B \<notin> set (m @ [CHR 0x7D])"
    using name_brace_free [OF assms(2)] by simp
  from replace_skip [OF this, of rest n new] nh show ?thesis
    unfolding eq by (simp add: placeholder_def)
qed

lemma replace_render:
  assumes "list_all wf_seg segs" and "list_all is_name_char n"
  shows "replace_nonempty (render segs) (placeholder n) new
     = concat (map (\<lambda>seg. if seg = Hole n then new else render_seg seg) segs)"
  using assms(1)
proof (induction segs)
  case Nil
  then show ?case by simp
next
  case (Cons seg segs)
  show ?case
  proof (cases seg)
    case (Lit c)
    with Cons show ?thesis
      using replace_skip [of "[c]" "render segs" n new] by (auto simp del: replace_nonempty.simps)
  next
    case (Hole m)
    show ?thesis
    proof (cases "m = n")
      case True
      with Hole Cons show ?thesis by (simp add: replace_hit)
    next
      case False
      with Hole Cons assms(2) show ?thesis by (simp add: replace_miss)
    qed
  qed
qed

subsection \<open>The loop of replacements\<close>

lemma render_Lits [simp]: "render (map Lit s) = s"
  by (induction s) simp_all

lemma pass_Nil [simp]: "pass B vars ns [] = []"
  and pass_Cons [simp]: "pass B vars ns (seg # segs) = subst_names B vars ns seg @ pass B vars ns segs"
  by (simp_all add: pass_def)

lemma pass_append [simp]: "pass B vars ns (xs @ ys) = pass B vars ns xs @ pass B vars ns ys"
  by (simp add: pass_def)

lemma pass_no_names [simp]: "pass B vars [] segs = segs"
proof (induction segs)
  case Nil
  then show ?case by simp
next
  case (Cons seg segs)
  then show ?case by (cases seg) simp_all
qed

lemma pass_Lits [simp]: "pass B vars ns (map Lit s) = map Lit s"
  by (induction s) simp_all

lemma wf_Lits: "brace_free s \<Longrightarrow> list_all wf_seg (map Lit s)"
  by (induction s) (auto simp: brace_free_def)

lemma wf_pass:
  assumes "list_all wf_seg segs" and "list_all (brace_free_value B vars) ns"
  shows "list_all wf_seg (pass B vars ns segs)"
  using assms(1)
proof (induction segs)
  case Nil
  then show ?case by simp
next
  case (Cons seg segs)
  show ?case
  proof (cases seg)
    case (Lit c)
    with Cons show ?thesis by simp
  next
    case (Hole m)
    have "list_all wf_seg (subst_names B vars ns (Hole m))"
    proof (cases "m \<in> set ns")
      case True
      with assms(2) have "brace_free_value B vars m" by (simp add: list_all_iff)
      with True Cons.prems Hole show ?thesis
        by (auto simp: brace_free_value_def wf_Lits split: option.splits)
    next
      case False
      with Cons.prems Hole show ?thesis by simp
    qed
    with Cons Hole show ?thesis by simp
  qed
qed

lemma pass_one:
  assumes "list_all wf_seg segs" and "valid_name n"
  shows "(case map_of vars n of
            None \<Rightarrow> render segs
          | Some v \<Rightarrow> if v \<noteq> VNone then replace (render segs) (placeholder n) (py_str B v)
                      else render segs)
         = render (pass B vars [n] segs)"
proof -
  have r: "render (pass B vars [n] segs)
      = concat (map (\<lambda>seg. if seg = Hole n
                             then (case replacement B vars n of Some text \<Rightarrow> text | None \<Rightarrow> placeholder n)
                             else render_seg seg) segs)"
  proof (induction segs)
    case Nil
    then show ?case by simp
  next
    case (Cons seg segs)
    then show ?case by (cases seg) (auto split: option.splits)
  qed
  have same: "concat (map (\<lambda>seg. if seg = Hole n then placeholder n else render_seg seg) segs) = render segs"
  proof (induction segs)
    case Nil
    then show ?case by simp
  next
    case (Cons seg segs)
    then show ?case by (cases seg) auto
  qed
  have ne: "placeholder n \<noteq> []" by (simp add: placeholder_def)
  from assms(2) have nm: "list_all is_name_char n" by (simp add: valid_name_def)
  show ?thesis
  proof (cases "replacement B vars n")
    case None
    then show ?thesis
      unfolding r by (auto simp: replacement_def same split: option.splits if_splits cong del: if_weak_cong)
  next
    case (Some new)
    then obtain v where "map_of vars n = Some v" "v \<noteq> VNone" "new = py_str B v"
      by (auto simp: replacement_def split: option.splits if_splits)
    with Some show ?thesis
      unfolding r by (simp add: replace_def ne replace_render [OF assms(1) nm] cong del: if_weak_cong)
  qed
qed

lemma pass_compose:
  "pass B vars ns (pass B vars [n] segs) = pass B vars (n # ns) segs"
proof (induction segs)
  case Nil
  then show ?case by simp
next
  case (Cons seg segs)
  then show ?case by (cases seg) (auto split: option.splits)
qed

lemma interpolate_loop_render:
  assumes "list_all valid_name ns" and "list_all (brace_free_value B vars) ns"
    and "list_all wf_seg segs"
  shows "interpolate_loop B vars ns (render segs) = render (pass B vars ns segs)"
  using assms
proof (induction ns arbitrary: segs)
  case Nil
  then show ?case by simp
next
  case (Cons n ns)
  from Cons.prems have n: "valid_name n" "brace_free_value B vars n"
    and ns: "list_all valid_name ns" "list_all (brace_free_value B vars) ns"
    by simp_all
  from n(2) have "list_all (brace_free_value B vars) [n]" by simp
  from wf_pass [OF Cons.prems(3) this] have wf1: "list_all wf_seg (pass B vars [n] segs)" .
  have "interpolate_loop B vars (n # ns) (render segs)
      = interpolate_loop B vars ns (render (pass B vars [n] segs))"
    using pass_one [OF Cons.prems(3) n(1), where vars = vars and B = B] by simp
  also have "\<dots> = render (pass B vars ns (pass B vars [n] segs))"
    by (rule Cons.IH [OF ns wf1])
  also have "\<dots> = render (pass B vars (n # ns) segs)"
    by (simp add: pass_compose)
  finally show ?case .
qed

lemma holes_valid: "list_all wf_seg segs \<Longrightarrow> list_all valid_name (holes segs)"
proof (induction segs)
  case Nil
  then show ?case by simp
next
  case (Cons seg segs)
  then show ?case by (cases seg) (simp_all add: valid_name_def)
qed

lemma render_pass_all:
  "set (holes segs) \<subseteq> set ns \<Longrightarrow>
   render (pass B vars ns segs) = concat (map (subst_seg B vars) segs)"
proof (induction segs)
  case Nil
  then show ?case by simp
next
  case (Cons seg segs)
  then show ?case by (cases seg) (auto simp: subst_seg_def split: option.splits)
qed

lemma interpolate_str_render:
  assumes "list_all wf_seg segs" and "list_all (brace_free_value B vars) (holes segs)"
  shows "interpolate_str B (render segs) vars = interpolate_spec B vars (render segs)"
proof -
  have "interpolate_str B (render segs) vars = interpolate_loop B vars (holes segs) (render segs)"
    by (simp add: interpolate_str_def findall_render [OF assms(1)])
  also have "\<dots> = render (pass B vars (holes segs) segs)"
    by (rule interpolate_loop_render [OF holes_valid [OF assms(1)] assms(2,1)])
  also have "\<dots> = concat (map (subst_seg B vars) segs)"
    by (rule render_pass_all) simp
  also have "\<dots> = interpolate_spec B vars (render segs)"
    by (simp add: interpolate_spec_render [OF assms(1)])
  finally show ?thesis .
qed

subsection \<open>A single placeholder\<close>

lemma strip_last_not_space: "strip s \<noteq> [] \<Longrightarrow> \<not> is_space (last (strip s))"
proof -
  assume ne: "strip s \<noteq> []"
  let ?ys = "dropWhile is_space (rev (dropWhile is_space s))"
  from ne have ys: "?ys \<noteq> []" by (simp add: strip_def)
  then have "\<not> is_space (hd ?ys)" by (rule hd_dropWhile)
  moreover have "last (strip s) = hd ?ys" using ys by (simp add: strip_def last_rev)
  ultimately show ?thesis by simp
qed

lemma newline_is_space: "is_space (CHR 0x0A)"
  by (simp add: is_space_def code_def)

lemma match_single_Some:
  assumes "match_single t = Some n"
  shows "valid_name n \<and> (t = placeholder n \<or> t = placeholder n @ [CHR 0x0A])"
proof -
  from assms obtain cs where t: "t = CHR 0x7B # cs"
    and n: "n = takeWhile is_name_char cs" "n \<noteq> []"
    and d: "dropWhile is_name_char cs = [CHR 0x7D] \<or> dropWhile is_name_char cs = [CHR 0x7D, CHR 0x0A]"
    by (cases t) (auto simp: match_single_def split: if_splits)
  have "list_all is_name_char n" unfolding n(1) by (auto simp: list_all_iff dest: set_takeWhileD)
  with n(2) have v: "valid_name n" by (simp add: valid_name_def)
  have "cs = n @ dropWhile is_name_char cs" unfolding n(1) by simp
  with d t have "t = placeholder n \<or> t = placeholder n @ [CHR 0x0A]"
    by (auto simp: placeholder_def)
  with v show ?thesis by simp
qed

lemma match_single_strip:
  "match_single (strip s) = Some n \<Longrightarrow> valid_name n \<and> strip s = placeholder n"
proof -
  assume m: "match_single (strip s) = Some n"
  from match_single_Some [OF m] have v: "valid_name n"
    and c: "strip s = placeholder n \<or> strip s = placeholder n @ [CHR 0x0A]" by simp_all
  have "strip s \<noteq> placeholder n @ [CHR 0x0A]"
  proof
    assume e: "strip s = placeholder n @ [CHR 0x0A]"
    then have "strip s \<noteq> []" by simp
    from strip_last_not_space [OF this] e newline_is_space show False by simp
  qed
  with v c show ?thesis by simp
qed

lemma single_placeholder_typed:
  assumes "strip s = placeholder n" and "valid_name n" and "map_of vars n = Some v"
  shows "interpolate_with_types B (VStr s) vars = v"
proof -
  from assms(2) have "match_single (placeholder n) = Some n"
    by (simp add: valid_name_def list_all_iff match_single_placeholder)
  with assms(1,3) show ?thesis by (simp add: interpolate_with_types_def)
qed

lemma otherwise_plain:
  assumes "\<not> (\<exists>n. strip s = placeholder n \<and> valid_name n \<and> map_of vars n \<noteq> None)"
  shows "interpolate_with_types B (VStr s) vars = interpolate_variables B (VStr s) vars"
proof (cases "match_single (strip s)")
  case None
  then show ?thesis by (simp add: interpolate_with_types_def)
next
  case (Some n)
  from match_single_strip [OF Some] assms have "map_of vars n = None" by auto
  with Some show ?thesis by (simp add: interpolate_with_types_def)
qed

lemma count_examples:
  "interpolate_with_types B (VStr ''{Count}'') [(''Count'', VInt 42)] = VInt 42"
  "interpolate_with_types B (VStr ''Total: {Count}'') [(''Count'', VInt 42)] = VStr ''Total: 42''"
  by (simp_all add: interpolate_with_types_def strip_def is_space_def code_def match_single_def
      is_name_char_def is_word_def interpolate_variables_def interpolate_str_def startswith_def
      placeholder_def replace_def py_str_def str_int_def str_nat.simps digit_char_def)


text \<open>Claim C8, as the code has it.  With the variables \<open>{Count: 42}\<close> the
  type-preserving interpolation of \<open>{Count}\<close> is the integer 42 and that of
  \<open>Total: {Count}\<close> is the string \<open>Total: 42\<close>.  Whenever the trimmed input is exactly
  one placeholder whose name is bound, the value bound to it is returned as it is.
  Otherwise the result is the plain interpolation of the input, which rewrites the text
  once for each placeholder found, in order; when every brace of the text belongs to a
  placeholder and no textual form that is put in contains a brace, this replaces every
  placeholder occurrence that is bound to a value other than null by the textual form of
  that value, and leaves the others.\<close>

theorem type_preserving_interpolation:
  "interpolate_with_types B (VStr ''{Count}'') [(''Count'', VInt 42)] = VInt 42
   \<and> interpolate_with_types B (VStr ''Total: {Count}'') [(''Count'', VInt 42)] = VStr ''Total: 42''
   \<and> (\<forall>s n v. strip s = placeholder n \<and> valid_name n \<and> map_of vars n = Some v
         \<longrightarrow> interpolate_with_types B (VStr s) vars = v)
   \<and> (\<forall>s. \<not> (\<exists>n. strip s = placeholder n \<and> valid_name n \<and> map_of vars n \<noteq> None)
         \<longrightarrow> interpolate_with_types B (VStr s) vars = interpolate_variables B (VStr s) vars)
   \<and> (\<forall>segs. list_all wf_seg segs \<and> list_all (brace_free_value B vars) (holes segs)
         \<longrightarrow> interpolate_variables B (VStr (render segs)) vars
               = VStr (interpolate_spec B vars (render segs)))"
  using count_examples [of B] single_placeholder_typed [of _ _ vars _ B] otherwise_plain [of _ vars B]
    interpolate_str_render [of _ B vars]
  by (simp add: interpolate_variables_def)


theorem type_preserving_interpolation_witness:
  "strip ''  {Items} '' = placeholder ''Items'' \<and> valid_name ''Items''
   \<and> map_of example_vars ''Items'' = Some (VList [VInt 1, VInt 2])
   \<and> interpolate_with_types example_builtins (VStr ''  {Items} '') example_vars
       = VList [VInt 1, VInt 2]
   \<and> \<not> (\<exists>n. strip ''Hi {Name}!'' = placeholder n \<and> valid_name n \<and> map_of example_vars n \<noteq> None)
   \<and> interpolate_with_types example_builtins (VStr ''Hi {Name}!'') example_vars
       = interpolate_variables example_builtins (VStr ''Hi {Name}!'') example_vars
   \<and> list_all wf_seg example_segs
   \<and> list_all (brace_free_value example_builtins example_vars) (holes example_segs)
   \<and> render example_segs = ''Hi {Name}!''
   \<and> interpolate_variables example_builtins (VStr ''Hi {Name}!'') example_vars = VStr ''Hi Al!''"
proof -
  note th = type_preserving_interpolation [of example_builtins example_vars]
  have a: "strip ''  {Items} '' = placeholder ''Items'' \<and> valid_name ''Items''
      \<and> map_of example_vars ''Items'' = Some (VList [VInt 1, VInt 2])"
    by code_simp
  from th a have b: "interpolate_with_types example_builtins (VStr ''  {Items} '') example_vars
       = VList [VInt 1, VInt 2]"
    by blast
  have "strip ''Hi {Name}!'' = ''Hi {Name}!''" by code_simp
  then have c: "\<not> (\<exists>n. strip ''Hi {Name}!'' = placeholder n \<and> valid_name n
      \<and> map_of example_vars n \<noteq> None)"
    by (simp add: placeholder_def)
  from th c have d: "interpolate_with_types example_builtins (VStr ''Hi {Name}!'') example_vars
       = interpolate_variables example_builtins (VStr ''Hi {Name}!'') example_vars"
    by blast
  have e: "list_all wf_seg example_segs
      \<and> list_all (brace_free_value example_builtins example_vars) (holes example_segs)"
    by code_simp
  have f: "render example_segs = ''Hi {Name}!''" by code_simp
  have g: "interpolate_spec example_builtins example_vars ''Hi {Name}!'' = ''Hi Al!''" by code_simp
  from th e have "interpolate_variables example_builtins (VStr (render example_segs)) example_vars
      = VStr (interpolate_spec example_builtins example_vars (render example_segs))"
    by blast
  then have h: "interpolate_variables example_builtins (VStr ''Hi {Name}!'') example_vars = VStr ''Hi Al!''"
    unfolding f g .
  from a b c d e f h show ?thesis by blast
qed

text \<open>Without the condition on braces the last part fails: the text put in for one
  placeholder is rewritten again when a later placeholder has the name that it contains.
  With \<open>a = "{b}"\<close> and \<open>b = "x"\<close> the text \<open>{a}{b}\<close> becomes \<open>xx\<close>, whereas replacing
  each occurrence by its textual form gives \<open>{b}x\<close>.\<close>

theorem sequential_replacement_counterexample:
  "interpolate_with_types example_builtins (VStr ''{a}{b}'') [(''a'', VStr ''{b}''), (''b'', VStr ''x'')]
     = VStr ''xx''
   \<and> interpolate_spec example_builtins [(''a'', VStr ''{b}''), (''b'', VStr ''x'')] ''{a}{b}'' = ''{b}x''
   \<and> interpolate_with_types example_builtins (VStr ''{a}{b}'') [(''a'', VStr ''{b}''), (''b'', VStr ''x'')]
     \<noteq> VStr (interpolate_spec example_builtins [(''a'', VStr ''{b}''), (''b'', VStr ''x'')] ''{a}{b}'')"
  by code_simp

end
